theory Spec2Isabelle
  imports Complex_Main
begin

section \<open>Conventions of the embedding\<close>

text \<open>
  The anti-cheat services compute with Python floats. Outside the trust scorer a float is
  modelled as a real number: every arithmetic operation is the exact one, and there is no
  NaN and no infinity. The trust scorer, whose result is claimed to be in range whatever
  the magnitude of its input, has numbers with infinities and NaN and takes the
  arithmetic as a parameter. An exception of the source is a value \<open>Inl e\<close> of a sum type, a returned
  value is \<open>Inr v\<close>. A dictionary whose keys are read with \<open>d.get(key, default)\<close> is a
  record whose field is an option: \<open>None\<close> is the absent key.
\<close>

datatype exn = ZeroDivisionError | OverflowError | ValueError | IndexError | NotFittedError

definition getd :: "'a option \<Rightarrow> 'a \<Rightarrow> 'a" where
  \<comment> \<open>\<open>d.get(key, default)\<close>\<close>
  "getd v d = (case v of None \<Rightarrow> d | Some x \<Rightarrow> x)"

definition radians :: "real \<Rightarrow> real" where
  \<comment> \<open>\<open>math.radians\<close>\<close>
  "radians x = x * pi / 180"

definition py_sqrt :: "real \<Rightarrow> exn + real" where
  \<comment> \<open>\<open>math.sqrt\<close>: a negative argument raises ValueError\<close>
  "py_sqrt x = (if x < 0 then Inl ValueError else Inr (sqrt x))"

definition py_asin :: "real \<Rightarrow> exn + real" where
  \<comment> \<open>\<open>math.asin\<close>: an argument outside [-1, 1] raises ValueError\<close>
  "py_asin x = (if x < -1 \<or> 1 < x then Inl ValueError else Inr (arcsin x))"

section \<open>LocationVerificationService: the haversine distance\<close>

record location =
  lat :: real
  lon :: real
  timestamp :: "real option"

definition haversine_a :: "location \<Rightarrow> location \<Rightarrow> real" where
  "haversine_a loc1 loc2 =
     (let lat1 = radians (lat loc1); lon1 = radians (lon loc1);
          lat2 = radians (lat loc2); lon2 = radians (lon loc2);
          dlat = lat2 - lat1;
          dlon = lon2 - lon1
      in (sin (dlat / 2))\<^sup>2 + cos lat1 * cos lat2 * (sin (dlon / 2))\<^sup>2)"

definition lvs_calculate_distance :: "location \<Rightarrow> location \<Rightarrow> exn + real" where
  \<comment> \<open>\<open>LocationVerificationService._calculate_distance\<close>\<close>
  "lvs_calculate_distance loc1 loc2 =
     (let a = haversine_a loc1 loc2 in
      case py_sqrt a of
        Inl e \<Rightarrow> Inl e
      | Inr r \<Rightarrow>
          (case py_asin r of
             Inl e \<Rightarrow> Inl e
           | Inr s \<Rightarrow> (let c = 2 * s in Inr (6371000 * c))))"

section \<open>LocationVerificationService: the five verification methods\<close>

text \<open>
  The request body \<open>location_data\<close> is a dictionary of five optional sub-dictionaries.
  Numbers are reals; a key that is absent is \<open>None\<close>.
\<close>

record gps_data =
  gps_accuracy :: "real option"
  gps_satellite_count :: "real option"
  gps_signal_strength :: "real option"
  gps_is_mock_provider :: "bool option"
  gps_altitude :: "real option"
  gps_latitude :: "real option"
  gps_longitude :: "real option"

record wifi_network =
  net_signal_strength :: "real option"
  net_ssid :: "string option"

record wifi_data =
  wifi_networks :: "wifi_network list option"

record cell_tower =
  tower_signal_strength :: "real option"
  tower_provider :: "string option"

record cell_data =
  cell_towers :: "cell_tower list option"

record bluetooth_data =
  bt_devices :: "string list option"

record ip_data =
  ip_address :: "string option"
  ip_is_vpn :: "bool option"
  ip_is_proxy :: "bool option"
  ip_latitude :: "real option"
  ip_longitude :: "real option"

record location_data =
  ld_gps :: "gps_data option"
  ld_wifi :: "wifi_data option"
  ld_cell :: "cell_data option"
  ld_bluetooth :: "bluetooth_data option"
  ld_ip :: "ip_data option"

definition empty_gps :: gps_data where
  \<comment> \<open>the default \<open>{}\<close> of \<open>location_data.get('gps', {})\<close>\<close>
  "empty_gps = \<lparr>gps_accuracy = None, gps_satellite_count = None, gps_signal_strength = None,
                 gps_is_mock_provider = None, gps_altitude = None, gps_latitude = None,
                 gps_longitude = None\<rparr>"

definition empty_ip :: ip_data where
  "empty_ip = \<lparr>ip_address = None, ip_is_vpn = None, ip_is_proxy = None,
                ip_latitude = None, ip_longitude = None\<rparr>"

definition truthy :: "real option \<Rightarrow> bool" where
  \<comment> \<open>Python truth value of \<open>d.get(key)\<close> for a number: None and 0 are false\<close>
  "truthy v = (case v of None \<Rightarrow> False | Some x \<Rightarrow> x \<noteq> 0)"

text \<open>
  The issue strings of the source interpolate numbers; an issue is modelled by its kind and
  the interpolated value.
\<close>

datatype issue =
    PoorGpsAccuracy real
  | LowSatelliteCount real
  | WeakGpsSignal real
  | MockLocationProvider
  | NoWifiNetworks
  | FoundKnownNetworks nat
  | NoCellTowers
  | NoBluetoothDevices
  | NoIpAddress
  | VpnOrProxy
  | IpLocationMismatch real

text \<open>
  The result dictionary of a verification method. The keys \<open>verified\<close>, \<open>confidence\<close> are
  in every result; the others are set by some methods only. The keys that only report an
  input or a count back and are read nowhere (\<open>accuracy_meters\<close>, \<open>satellite_count\<close>,
  \<open>signal_strength\<close>, \<open>known_networks\<close>, \<open>avg_signal_strength\<close>, \<open>tower_count\<close>,
  \<open>device_count\<close>, \<open>ip_address\<close>) are left out.
\<close>

record method_result =
  mr_verified :: bool
  mr_confidence :: real
  mr_issues :: "issue list"
  mr_network_count :: "nat option"
  mr_is_vpn :: "bool option"
  mr_is_proxy :: "bool option"
  mr_error :: "exn option"

definition check_altitude_consistency :: "gps_data \<Rightarrow> bool" where
  "check_altitude_consistency g =
     (let altitude = gps_altitude g in
      if \<not> truthy altitude then False
      else - 100 \<le> the altitude \<and> the altitude \<le> 9000)"

definition verify_gps_location :: "location_data \<Rightarrow> method_result" where
  "verify_gps_location ld =
     (let g = getd (ld_gps ld) empty_gps;
          confidence = 0;
          issues = [];
          accuracy = getd (gps_accuracy g) 0;
          (confidence, issues) =
            (if accuracy < 10 then (confidence + 0.4, issues)
             else if accuracy < 50 then (confidence + 0.3, issues)
             else if accuracy < 100 then (confidence + 0.2, issues)
             else (confidence + 0.1, issues @ [PoorGpsAccuracy accuracy]));
          satellite_count = getd (gps_satellite_count g) 0;
          (confidence, issues) =
            (if satellite_count \<ge> 10 then (confidence + 0.3, issues)
             else if satellite_count \<ge> 5 then (confidence + 0.2, issues)
             else (confidence + 0.1, issues @ [LowSatelliteCount satellite_count]));
          signal_strength = getd (gps_signal_strength g) (- 1);
          (confidence, issues) =
            (if signal_strength > - 80 then (confidence + 0.2, issues)
             else if signal_strength > - 100 then (confidence + 0.1, issues)
             else (confidence, issues @ [WeakGpsSignal signal_strength]));
          is_mock = getd (gps_is_mock_provider g) False;
          (confidence, issues) =
            (if is_mock then (confidence * 0.1, issues @ [MockLocationProvider])
             else (confidence, issues));
          confidence = (if check_altitude_consistency g then confidence + 0.1 else confidence)
      in \<lparr>mr_verified = (confidence \<ge> 0.6), mr_confidence = min 1 confidence,
          mr_issues = issues, mr_network_count = None, mr_is_vpn = None, mr_is_proxy = None,
          mr_error = None\<rparr>)"

definition identify_known_networks :: "wifi_network list \<Rightarrow> string list" where
  "identify_known_networks networks =
     filter (\<lambda>ssid. ssid \<in> set [''HomeNetwork'', ''OfficeWiFi'', ''PublicWiFi''])
            (map (\<lambda>n. getd (net_ssid n) []) networks)"

definition check_network_stability :: "wifi_data \<Rightarrow> bool" where
  "check_network_stability w = True"

definition verify_wifi_fingerprint :: "location_data \<Rightarrow> method_result" where
  "verify_wifi_fingerprint ld =
     (let wd = getd (ld_wifi ld) \<lparr>wifi_networks = None\<rparr>;
          networks = getd (wifi_networks wd) [];
          confidence = 0;
          issues = []
      in if networks = [] then
           \<lparr>mr_verified = False, mr_confidence = 0, mr_issues = [NoWifiNetworks],
            mr_network_count = Some 0, mr_is_vpn = None, mr_is_proxy = None, mr_error = None\<rparr>
         else
           (let network_count = length networks;
                confidence =
                  (if network_count \<ge> 5 then confidence + 0.4
                   else if network_count \<ge> 3 then confidence + 0.3
                   else if network_count \<ge> 1 then confidence + 0.2
                   else confidence + 0.1);
                signal_strengths = map (\<lambda>n. getd (net_signal_strength n) (- 100)) networks;
                avg_signal = sum_list signal_strengths / real (length signal_strengths);
                confidence =
                  (if avg_signal > - 60 then confidence + 0.3
                   else if avg_signal > - 70 then confidence + 0.2
                   else if avg_signal > - 80 then confidence + 0.1
                   else confidence);
                known_networks = identify_known_networks networks;
                (confidence, issues) =
                  (if known_networks \<noteq> []
                   then (confidence + 0.2, issues @ [FoundKnownNetworks (length known_networks)])
                   else (confidence, issues));
                confidence = (if check_network_stability wd then confidence + 0.1 else confidence)
            in \<lparr>mr_verified = (confidence \<ge> 0.5), mr_confidence = min 1 confidence,
                mr_issues = issues, mr_network_count = Some network_count, mr_is_vpn = None,
                mr_is_proxy = None, mr_error = None\<rparr>))"

definition check_tower_consistency :: "cell_tower list \<Rightarrow> bool" where
  "check_tower_consistency towers =
     (if length towers < 2 then False
      else (let providers = remdups (map (\<lambda>t. getd (tower_provider t) []) towers)
            in length providers \<le> 2))"

fun tower_signal_loop :: "cell_tower list \<Rightarrow> real \<Rightarrow> real" where
  \<comment> \<open>the loop \<open>for tower in towers\<close> of \<open>_verify_cell_towers\<close>\<close>
  "tower_signal_loop [] confidence = confidence"
| "tower_signal_loop (tower # rest) confidence =
     (let signal_strength = getd (tower_signal_strength tower) (- 100)
      in tower_signal_loop rest
           (if signal_strength > - 80 then confidence + 0.1
            else if signal_strength > - 90 then confidence + 0.05
            else confidence))"

definition verify_cell_towers :: "location_data \<Rightarrow> method_result" where
  "verify_cell_towers ld =
     (let cd = getd (ld_cell ld) \<lparr>cell_towers = None\<rparr>;
          towers = getd (cell_towers cd) [];
          confidence = 0
      in if towers = [] then
           \<lparr>mr_verified = False, mr_confidence = 0, mr_issues = [NoCellTowers],
            mr_network_count = None, mr_is_vpn = None, mr_is_proxy = None, mr_error = None\<rparr>
         else
           (let tower_count = length towers;
                confidence =
                  (if tower_count \<ge> 3 then confidence + 0.5
                   else if tower_count \<ge> 2 then confidence + 0.3
                   else confidence + 0.1);
                confidence = tower_signal_loop towers confidence;
                confidence = (if check_tower_consistency towers then confidence + 0.2 else confidence);
                confidence = min 0.8 confidence
            in \<lparr>mr_verified = (confidence \<ge> 0.4), mr_confidence = confidence,
                mr_issues = [], mr_network_count = None, mr_is_vpn = None,
                mr_is_proxy = None, mr_error = None\<rparr>))"

definition verify_bluetooth_beacons :: "location_data \<Rightarrow> method_result" where
  "verify_bluetooth_beacons ld =
     (let bd = getd (ld_bluetooth ld) \<lparr>bt_devices = None\<rparr>;
          devices = getd (bt_devices bd) []
      in if devices = [] then
           \<lparr>mr_verified = False, mr_confidence = 0, mr_issues = [NoBluetoothDevices],
            mr_network_count = None, mr_is_vpn = None, mr_is_proxy = None, mr_error = None\<rparr>
         else
           (let device_count = length devices;
                confidence =
                  (if device_count \<ge> 3 then 0.6
                   else if device_count \<ge> 2 then 0.4
                   else 0.2)
            in \<lparr>mr_verified = (confidence \<ge> 0.4), mr_confidence = confidence,
                mr_issues = [], mr_network_count = None, mr_is_vpn = None,
                mr_is_proxy = None, mr_error = None\<rparr>))"

definition gps_nonempty :: "gps_data \<Rightarrow> bool" where
  \<comment> \<open>the truth value of the dictionary \<open>gps_data\<close>: some key is present\<close>
  "gps_nonempty g = (g \<noteq> empty_gps)"

definition verify_ip_geolocation :: "location_data \<Rightarrow> exn + method_result" where
  "verify_ip_geolocation ld =
     (let ipd = getd (ld_ip ld) empty_ip;
          confidence = (0::real);
          issues = ([]::issue list);
          address = getd (ip_address ipd) []
      in if address = [] then
           Inr \<lparr>mr_verified = False, mr_confidence = 0, mr_issues = [NoIpAddress],
                mr_network_count = None, mr_is_vpn = None, mr_is_proxy = None, mr_error = None\<rparr>
         else
           (let is_vpn = getd (ip_is_vpn ipd) False;
                is_proxy = getd (ip_is_proxy ipd) False;
                (confidence, issues) =
                  (if is_vpn \<or> is_proxy then (0.1, issues @ [VpnOrProxy]) else (0.5, issues));
                g = getd (ld_gps ld) empty_gps;
                ip_lat = ip_latitude ipd;
                ip_lon = ip_longitude ipd;
                gps_lat = gps_latitude g;
                gps_lon = gps_longitude g;
                compared =
                  (if gps_nonempty g \<and> truthy ip_lat \<and> truthy ip_lon \<and> truthy gps_lat
                      \<and> truthy gps_lon
                   then
                     (case lvs_calculate_distance
                             \<lparr>lat = the ip_lat, lon = the ip_lon, timestamp = None\<rparr>
                             \<lparr>lat = the gps_lat, lon = the gps_lon, timestamp = None\<rparr> of
                        Inl e \<Rightarrow> Inl e
                      | Inr distance \<Rightarrow>
                          if distance < 50000 then Inr (confidence + 0.3, issues)
                          else Inr (confidence * 0.5, issues @ [IpLocationMismatch distance]))
                   else Inr (confidence, issues))
            in case compared of
                 Inl e \<Rightarrow> Inl e
               | Inr (confidence, issues) \<Rightarrow>
                   Inr \<lparr>mr_verified = (confidence \<ge> 0.4), mr_confidence = min 1 confidence,
                        mr_issues = issues, mr_network_count = None, mr_is_vpn = Some is_vpn,
                        mr_is_proxy = Some is_proxy, mr_error = None\<rparr>))"

section \<open>LocationVerificationService: combining the methods\<close>

datatype method_name = Gps | Wifi | Cell | Bluetooth | Ip

definition verification_methods :: "method_name list" where
  \<comment> \<open>the keys of \<open>self.verification_methods\<close>, in insertion order\<close>
  "verification_methods = [Gps, Wifi, Cell, Bluetooth, Ip]"

fun method_func :: "method_name \<Rightarrow> location_data \<Rightarrow> exn + method_result" where
  \<comment> \<open>\<open>self.verification_methods[method_name]\<close>\<close>
  "method_func Gps ld = Inr (verify_gps_location ld)"
| "method_func Wifi ld = Inr (verify_wifi_fingerprint ld)"
| "method_func Cell ld = Inr (verify_cell_towers ld)"
| "method_func Bluetooth ld = Inr (verify_bluetooth_beacons ld)"
| "method_func Ip ld = verify_ip_geolocation ld"

fun method_weights :: "method_name \<Rightarrow> real" where
  "method_weights Gps = 0.4"
| "method_weights Wifi = 0.25"
| "method_weights Cell = 0.2"
| "method_weights Bluetooth = 0.1"
| "method_weights Ip = 0.05"

definition failed_result :: "exn \<Rightarrow> method_result" where
  \<comment> \<open>the dictionary stored by the \<open>except\<close> branch\<close>
  "failed_result e =
     \<lparr>mr_verified = False, mr_confidence = 0, mr_issues = [], mr_network_count = None,
      mr_is_vpn = None, mr_is_proxy = None, mr_error = Some e\<rparr>"

fun run_methods ::
  "location_data \<Rightarrow> method_name list \<Rightarrow> (method_name \<rightharpoonup> method_result) \<times> real \<Rightarrow>
   (method_name \<rightharpoonup> method_result) \<times> real" where
  \<comment> \<open>the loop \<open>for method_name, method_func in self.verification_methods.items()\<close>\<close>
  "run_methods ld [] (verification_results, overall_confidence) =
     (verification_results, overall_confidence)"
| "run_methods ld (method_name # rest) (verification_results, overall_confidence) =
     (case method_func method_name ld of
        Inr result \<Rightarrow>
          (let method_confidence = mr_confidence result
           in run_methods ld rest
                (verification_results(method_name \<mapsto> result),
                 overall_confidence + method_confidence * method_weights method_name))
      | Inl e \<Rightarrow>
          run_methods ld rest
            (verification_results(method_name \<mapsto> failed_result e), overall_confidence))"

definition result_or_empty :: "(method_name \<rightharpoonup> method_result) \<Rightarrow> method_name \<Rightarrow> method_result" where
  \<comment> \<open>\<open>verification_results.get(name, {})\<close>, each key then read with its default\<close>
  "result_or_empty vr m =
     getd (vr m) \<lparr>mr_verified = False, mr_confidence = 0, mr_issues = [],
                  mr_network_count = None, mr_is_vpn = None, mr_is_proxy = None,
                  mr_error = None\<rparr>"

definition identify_location_risk_factors :: "(method_name \<rightharpoonup> method_result) \<Rightarrow> string list" where
  "identify_location_risk_factors vr =
     (let gps_result = result_or_empty vr Gps;
          wifi_result = result_or_empty vr Wifi;
          ip_result = result_or_empty vr Ip
      in (if mr_confidence gps_result < 0.3 then [''low_gps_confidence''] else [])
       @ (if MockLocationProvider \<in> set (mr_issues gps_result)
          then [''mock_location_detected''] else [])
       @ (if getd (mr_network_count wifi_result) 0 = 0 then [''no_wifi_networks''] else [])
       @ (if getd (mr_is_vpn ip_result) False then [''vpn_usage''] else [])
       @ (if getd (mr_is_proxy ip_result) False then [''proxy_usage''] else []))"

definition generate_verification_recommendations ::
  "(method_name \<rightharpoonup> method_result) \<Rightarrow> string list" where
  "generate_verification_recommendations vr =
     (let gps_result = result_or_empty vr Gps;
          wifi_result = result_or_empty vr Wifi;
          ip_result = result_or_empty vr Ip;
          recommendations =
            (if mr_confidence gps_result < 0.6
             then [''Improve GPS signal by moving to open area''] else [])
          @ (if getd (mr_network_count wifi_result) 0 < 3
             then [''Connect to more WiFi networks for better accuracy''] else [])
          @ (if getd (mr_is_vpn ip_result) False
             then [''Disable VPN for more accurate location verification''] else [])
      in if recommendations = [] then [''Location verification is strong'']
         else recommendations)"

record verification =
  v_verified :: bool
  v_overall_confidence :: real
  v_verification_methods :: "method_name \<rightharpoonup> method_result"
  v_risk_factors :: "string list"
  v_recommendations :: "string list"
  v_timestamp :: real

definition comprehensive_location_verification :: "real \<Rightarrow> location_data \<Rightarrow> verification" where
  \<comment> \<open>the first argument is the clock reading \<open>datetime.utcnow()\<close>\<close>
  "comprehensive_location_verification now ld =
     (let (verification_results, overall_confidence) =
            run_methods ld verification_methods (Map.empty, 0);
          is_verified = (overall_confidence \<ge> 0.7);
          risk_factors = identify_location_risk_factors verification_results
      in \<lparr>v_verified = is_verified,
          v_overall_confidence = overall_confidence,
          v_verification_methods = verification_results,
          v_risk_factors = risk_factors,
          v_recommendations = generate_verification_recommendations verification_results,
          v_timestamp = now\<rparr>)"

section \<open>LocationVerificationService: movement patterns\<close>

datatype movement_issue =
    InsufficientMovementData
  | UnnaturalMovementSpeed real
  | StraightMovement
  | RepetitiveMovement

record movement_result =
  mv_natural_movement :: bool
  mv_confidence :: real
  mv_issues :: "movement_issue list"
  mv_data_points :: "nat option"

fun teleport_loop ::
  "location list \<Rightarrow> movement_issue list \<times> real \<Rightarrow> exn + movement_issue list \<times> real" where
  \<comment> \<open>the loop \<open>for i in range(1, len(location_history))\<close> of \<open>verify_movement_patterns\<close>\<close>
  "teleport_loop (prv # cur # rest) (issues, natural_score) =
     (case lvs_calculate_distance prv cur of
        Inl e \<Rightarrow> Inl e
      | Inr distance \<Rightarrow>
          (let time_diff = getd (timestamp cur) 0 - getd (timestamp prv) 0
           in if time_diff > 0 then
                (let speed = distance / time_diff
                 in if speed > 50
                    then teleport_loop (cur # rest)
                           (issues @ [UnnaturalMovementSpeed speed], natural_score * 0.5)
                    else teleport_loop (cur # rest) (issues, natural_score))
              else teleport_loop (cur # rest) (issues, natural_score)))"
| "teleport_loop _ (issues, natural_score) = Inr (issues, natural_score)"

definition py_atan2 :: "real \<Rightarrow> real \<Rightarrow> real" where
  \<comment> \<open>\<open>math.atan2(y, x)\<close>\<close>
  "py_atan2 y x =
     (if x > 0 then arctan (y / x)
      else if x < 0 \<and> y \<ge> 0 then arctan (y / x) + pi
      else if x < 0 then arctan (y / x) - pi
      else if y > 0 then pi / 2
      else if y < 0 then - pi / 2
      else 0)"

definition degrees :: "real \<Rightarrow> real" where
  "degrees x = x * 180 / pi"

definition fmod_pos :: "real \<Rightarrow> real \<Rightarrow> real" where
  \<comment> \<open>\<open>x % m\<close> on floats for a positive \<open>m\<close>: the result is in [0, m)\<close>
  "fmod_pos x m = x - m * of_int \<lfloor>x / m\<rfloor>"

definition calculate_bearing :: "location \<Rightarrow> location \<Rightarrow> real" where
  "calculate_bearing point1 point2 =
     (let lat1 = radians (lat point1); lon1 = radians (lon point1);
          lat2 = radians (lat point2); lon2 = radians (lon point2);
          dlon = lon2 - lon1;
          x = sin dlon * cos lat2;
          y = cos lat1 * sin lat2 - sin lat1 * cos lat2 * cos dlon;
          bearing = py_atan2 x y
      in fmod_pos (degrees bearing) 360)"

definition calculate_variance :: "real list \<Rightarrow> real" where
  "calculate_variance vals =
     (if length vals < 2 then 0
      else (let mean = sum_list vals / real (length vals)
            in sum_list (map (\<lambda>x. (x - mean)\<^sup>2) vals) / real (length vals)))"

definition check_straight_line_movement :: "location list \<Rightarrow> bool" where
  "check_straight_line_movement locations =
     (if length locations < 4 then False
      else (let bearings = map (\<lambda>(a, b). calculate_bearing a b) (zip locations (tl locations));
                bearing_variance = calculate_variance bearings
            in bearing_variance < 10))"

definition check_repetitive_patterns :: "location list \<Rightarrow> bool" where
  "check_repetitive_patterns locations =
     (if length locations < 6 then False
      else (let coordinates = map (\<lambda>loc. (lat loc, lon loc)) locations;
                unique_coords = remdups coordinates;
                duplicate_ratio = 1 - real (length unique_coords) / real (length coordinates)
            in duplicate_ratio > 0.3))"

definition verify_movement_patterns :: "location list \<Rightarrow> exn + movement_result" where
  "verify_movement_patterns location_history =
     (if length location_history < 3 then
        Inr \<lparr>mv_natural_movement = True, mv_confidence = 0.5,
             mv_issues = [InsufficientMovementData], mv_data_points = None\<rparr>
      else
        (case teleport_loop location_history ([], 1) of
           Inl e \<Rightarrow> Inl e
         | Inr (issues, natural_score) \<Rightarrow>
             (let (issues, natural_score) =
                    (if check_straight_line_movement location_history
                     then (issues @ [StraightMovement], natural_score * 0.7)
                     else (issues, natural_score));
                  (issues, natural_score) =
                    (if check_repetitive_patterns location_history
                     then (issues @ [RepetitiveMovement], natural_score * 0.8)
                     else (issues, natural_score))
              in Inr \<lparr>mv_natural_movement = (natural_score \<ge> 0.6),
                      mv_confidence = natural_score,
                      mv_issues = issues,
                      mv_data_points = Some (length location_history)\<rparr>)))"

section \<open>TrustScorer\<close>

text \<open>
  The numpy functions in exact arithmetic. The pattern analyzer computes with them; for the
  trust scorer they are the mean, deviation and variance of the exact arithmetic.
\<close>

definition np_mean :: "real list \<Rightarrow> real" where
  \<comment> \<open>\<open>np.mean\<close> of a non-empty list\<close>
  "np_mean xs = sum_list xs / real (length xs)"

definition np_var :: "real list \<Rightarrow> real" where
  \<comment> \<open>\<open>np.var\<close>: the population variance\<close>
  "np_var xs = np_mean (map (\<lambda>x. (x - np_mean xs)\<^sup>2) xs)"

definition np_std :: "real list \<Rightarrow> real" where
  "np_std xs = sqrt (np_var xs)"

text \<open>
  The trust score is claimed to stay in range whatever the magnitude of the input, so the
  numbers of the trust scorer are not idealised. A number is a finite value (a Python
  \<open>int\<close> of any size, or a finite float), an infinity or NaN. The arithmetic of the
  interpreter and of numpy is a parameter: each operation takes its operands and returns a
  number or raises (ZeroDivisionError on a zero divisor, also after underflow;
  OverflowError on an \<open>int\<close> too large for a float), and nothing is assumed about the
  value it returns. Comparisons, \<open>min\<close> and \<open>max\<close> never raise and are defined here.
\<close>

datatype pynum = Fin real | PosInf | NegInf | NaN

fun py_lt :: "pynum \<Rightarrow> pynum \<Rightarrow> bool" where
  \<comment> \<open>\<open>a < b\<close>: every comparison with NaN is false\<close>
  "py_lt NaN b = False"
| "py_lt a NaN = False"
| "py_lt (Fin x) (Fin y) = (x < y)"
| "py_lt NegInf NegInf = False"
| "py_lt NegInf b = True"
| "py_lt a PosInf = (a \<noteq> PosInf)"
| "py_lt a b = False"

definition py_gt :: "pynum \<Rightarrow> pynum \<Rightarrow> bool" where
  "py_gt a b = py_lt b a"

definition py_ge :: "pynum \<Rightarrow> pynum \<Rightarrow> bool" where
  "py_ge a b = (a \<noteq> NaN \<and> b \<noteq> NaN \<and> \<not> py_lt a b)"

definition py_min :: "pynum \<Rightarrow> pynum \<Rightarrow> pynum" where
  \<comment> \<open>\<open>min(a, b)\<close>: the first argument, unless the second is smaller\<close>
  "py_min a b = (if py_lt b a then b else a)"

definition py_max :: "pynum \<Rightarrow> pynum \<Rightarrow> pynum" where
  \<comment> \<open>\<open>max(a, b)\<close>: the first argument, unless the second is greater\<close>
  "py_max a b = (if py_gt b a then b else a)"

record arith =
  a_add :: "pynum \<Rightarrow> pynum \<Rightarrow> exn + pynum"
  a_sub :: "pynum \<Rightarrow> pynum \<Rightarrow> exn + pynum"
  a_mul :: "pynum \<Rightarrow> pynum \<Rightarrow> exn + pynum"
  a_div :: "pynum \<Rightarrow> pynum \<Rightarrow> exn + pynum"
  a_pow :: "pynum \<Rightarrow> int \<Rightarrow> exn + pynum"
  a_mean :: "pynum list \<Rightarrow> exn + pynum"
  a_std :: "pynum list \<Rightarrow> exn + pynum"
  a_var :: "pynum list \<Rightarrow> exn + pynum"

definition and_then :: "exn + 'a \<Rightarrow> ('a \<Rightarrow> exn + 'b) \<Rightarrow> exn + 'b" where
  \<comment> \<open>sequencing: an exception of the first step ends the computation\<close>
  "and_then m f = (case m of Inl e \<Rightarrow> Inl e | Inr x \<Rightarrow> f x)"

record ts_player =
  ts_player_id :: "string option"
  ts_solving_times :: "pynum list option"
  ts_success_pattern :: "int list option"
  ts_movement_consistency :: "pynum option"
  ts_success_rate :: "pynum option"
  ts_account_age_days :: "pynum option"
  ts_achievements :: "pynum option"
  ts_total_play_time :: "pynum option"
  ts_collaboration_score :: "pynum option"
  ts_communication_quality :: "pynum option"
  ts_reports_received :: "pynum option"
  ts_positive_feedback :: "pynum option"
  ts_device_consistency :: "pynum option"
  ts_connection_stability :: "pynum option"
  ts_location_consistency :: "pynum option"
  ts_usual_playing_hours :: "bool option"
  ts_session_length_consistency :: "pynum option"
  ts_play_frequency_consistency :: "pynum option"

record location_analysis =
  la_gps_trust :: "pynum option"
  la_movement_plausibility :: "pynum option"
  la_spoofing_indicators :: "string list option"

record ts_verification_results =
  vr_location :: "location_analysis option"

datatype component =
    BehaviorConsistency
  | LocationVerification
  | HistoricalPerformance
  | SocialBehavior
  | DeviceReputation
  | TemporalPatterns

definition trust_weights :: "(component \<times> real) list" where
  \<comment> \<open>\<open>self.trust_weights\<close>, in insertion order\<close>
  "trust_weights =
     [(BehaviorConsistency, 0.25), (LocationVerification, 0.20), (HistoricalPerformance, 0.20),
      (SocialBehavior, 0.15), (DeviceReputation, 0.10), (TemporalPatterns, 0.10)]"

definition decay_factor :: real where
  "decay_factor = 0.95"

definition calculate_behavior_consistency :: "arith \<Rightarrow> ts_player \<Rightarrow> exn + pynum" where
  "calculate_behavior_consistency ar pd =
     (let consistency_indicators = [];
          solving_times = getd (ts_solving_times pd) []
      in and_then
           (if length solving_times > 2 then
              and_then (a_mean ar solving_times) (\<lambda>mean_time.
              and_then
                (if py_gt mean_time (Fin 0)
                 then and_then (a_std ar solving_times) (\<lambda>std_time.
                      and_then (a_mean ar solving_times) (\<lambda>mean_time.
                      a_div ar std_time mean_time))
                 else Inr (Fin 1)) (\<lambda>ratio.
              and_then (a_sub ar (Fin 1) ratio) (\<lambda>time_consistency.
              Inr (consistency_indicators @ [py_max (Fin 0) time_consistency]))))
            else Inr consistency_indicators) (\<lambda>consistency_indicators.
         (let success_pattern = getd (ts_success_pattern pd) []
          in and_then
               (if success_pattern \<noteq> [] then
                  (let unique_sequences = length (remdups success_pattern)
                   in and_then (a_div ar (Fin (real unique_sequences))
                                         (Fin (real (length success_pattern)))) (\<lambda>q.
                      and_then (a_sub ar (Fin 1) q) (\<lambda>sequence_consistency.
                      Inr (consistency_indicators @ [sequence_consistency]))))
                else Inr consistency_indicators) (\<lambda>consistency_indicators.
             (let movement_consistency = getd (ts_movement_consistency pd) (Fin 0.7);
                  consistency_indicators = consistency_indicators @ [movement_consistency]
              in if consistency_indicators \<noteq> [] then a_mean ar consistency_indicators
                 else Inr (Fin 0.5))))))"

definition calculate_location_trust :: "arith \<Rightarrow> ts_verification_results \<Rightarrow> exn + pynum" where
  "calculate_location_trust ar vr =
     (let la = getd (vr_location vr)
                 \<lparr>la_gps_trust = None, la_movement_plausibility = None,
                  la_spoofing_indicators = None\<rparr>;
          trust_factors = [getd (la_gps_trust la) (Fin 0.5)];
          trust_factors = trust_factors @ [getd (la_movement_plausibility la) (Fin 0.5)];
          spoofing_indicators = getd (la_spoofing_indicators la) []
      in and_then (a_mul ar (Fin (real (length spoofing_indicators))) (Fin 0.2)) (\<lambda>p.
         and_then (a_sub ar (Fin 1) p) (\<lambda>spoofing_penalty.
         (let trust_factors = trust_factors @ [py_max (Fin 0.1) spoofing_penalty]
          in a_mean ar trust_factors))))"

definition calculate_historical_performance :: "arith \<Rightarrow> ts_player \<Rightarrow> exn + pynum" where
  "calculate_historical_performance ar pd =
     (let success_rate = getd (ts_success_rate pd) (Fin 0.5);
          performance_indicators = [success_rate];
          account_age_days = getd (ts_account_age_days pd) (Fin 1)
      in and_then (a_div ar account_age_days (Fin 100)) (\<lambda>q.
         (let longevity_bonus = py_min (Fin 0.3) q
          in and_then (a_add ar (Fin 0.7) longevity_bonus) (\<lambda>with_bonus.
             (let performance_indicators = performance_indicators @ [with_bonus];
                  achievements = getd (ts_achievements pd) (Fin 0);
                  play_time = getd (ts_total_play_time pd) (Fin 1)
              in and_then (a_div ar play_time (Fin 3600)) (\<lambda>hours.
                 and_then (a_div ar achievements hours) (\<lambda>per_hour.
                 (let achievement_density = py_min (Fin 1) per_hour;
                      performance_indicators = performance_indicators @ [achievement_density]
                  in a_mean ar performance_indicators))))))))"

definition calculate_social_behavior :: "arith \<Rightarrow> ts_player \<Rightarrow> exn + pynum" where
  "calculate_social_behavior ar pd =
     (let collaboration = getd (ts_collaboration_score pd) (Fin 0.5);
          social_indicators = [collaboration];
          communication = getd (ts_communication_quality pd) (Fin 0.5);
          social_indicators = social_indicators @ [communication];
          reports_received = getd (ts_reports_received pd) (Fin 0)
      in and_then (a_mul ar reports_received (Fin 0.1)) (\<lambda>scaled_reports.
         and_then (a_sub ar (Fin 1) (py_min (Fin 0.5) scaled_reports)) (\<lambda>reports_penalty.
         (let social_indicators = social_indicators @ [reports_penalty];
              positive_feedback = getd (ts_positive_feedback pd) (Fin 0)
          in and_then (a_mul ar positive_feedback (Fin 0.05)) (\<lambda>scaled_feedback.
             (let feedback_bonus = py_min (Fin 0.2) scaled_feedback
              in and_then (a_add ar (Fin 0.8) feedback_bonus) (\<lambda>with_bonus.
                 (let social_indicators = social_indicators @ [with_bonus]
                  in a_mean ar social_indicators))))))))"

definition calculate_device_reputation :: "arith \<Rightarrow> ts_player \<Rightarrow> exn + pynum" where
  "calculate_device_reputation ar pd =
     (let device_indicators = [getd (ts_device_consistency pd) (Fin 0.8)];
          device_indicators = device_indicators @ [getd (ts_connection_stability pd) (Fin 0.7)];
          device_indicators = device_indicators @ [getd (ts_location_consistency pd) (Fin 0.6)]
      in a_mean ar device_indicators)"

definition calculate_temporal_consistency :: "arith \<Rightarrow> ts_player \<Rightarrow> exn + pynum" where
  "calculate_temporal_consistency ar pd =
     (let usual_playing_hours = getd (ts_usual_playing_hours pd) True;
          temporal_indicators = [if usual_playing_hours then Fin 0.9 else Fin 0.5];
          temporal_indicators =
            temporal_indicators @ [getd (ts_session_length_consistency pd) (Fin 0.7)];
          temporal_indicators =
            temporal_indicators @ [getd (ts_play_frequency_consistency pd) (Fin 0.6)]
      in a_mean ar temporal_indicators)"

text \<open>
  The decay step comes twice. \<open>apply_trust_decay\<close> is the step in exact arithmetic, on a
  history of real scores. \<open>apply_trust_decay_fl\<close> is the same step with the power and the
  product taken from the arithmetic parameter, as \<open>calculate_trust_score\<close> runs it; an
  exception leaves the history as it was.
\<close>

record history_entry =
  he_timestamp :: int
  he_score :: real

type_synonym trust_history = "string \<rightharpoonup> history_entry"

definition microseconds_per_day :: int where
  "microseconds_per_day = 86400000000"

definition timedelta_days :: "int \<Rightarrow> int \<Rightarrow> int" where
  \<comment> \<open>\<open>(now - last_update).days\<close>; a datetime is a count of microseconds, and the days of a
     normalised timedelta are the floor of the quotient\<close>
  "timedelta_days now last_update = (now - last_update) div microseconds_per_day"

definition apply_trust_decay ::
  "int \<Rightarrow> trust_history \<Rightarrow> string option \<Rightarrow> real \<Rightarrow> real \<times> trust_history" where
  \<comment> \<open>the first argument is the clock reading \<open>datetime.utcnow()\<close>; the history is
     \<open>self.trust_history\<close>, returned updated\<close>
  "apply_trust_decay now trust_history player_id current_score =
     (if player_id = None \<or> player_id = Some [] then (current_score, trust_history)
      else
        (let pid = the player_id in
         case trust_history pid of
           Some entry \<Rightarrow>
             (let last_update = he_timestamp entry;
                  days_passed = timedelta_days now last_update;
                  decayed_score = current_score * power_int decay_factor days_passed
              in (decayed_score,
                  trust_history(pid \<mapsto> \<lparr>he_timestamp = now, he_score = decayed_score\<rparr>)))
         | None \<Rightarrow>
             (current_score,
              trust_history(pid \<mapsto> \<lparr>he_timestamp = now, he_score = current_score\<rparr>))))"

record fl_history_entry =
  fe_timestamp :: int
  fe_score :: pynum

type_synonym fl_trust_history = "string \<rightharpoonup> fl_history_entry"

definition apply_trust_decay_fl ::
  "arith \<Rightarrow> int \<Rightarrow> fl_trust_history \<Rightarrow> string option \<Rightarrow> pynum \<Rightarrow>
   (exn + pynum) \<times> fl_trust_history" where
  "apply_trust_decay_fl ar now trust_history player_id current_score =
     (if player_id = None \<or> player_id = Some [] then (Inr current_score, trust_history)
      else
        (let pid = the player_id in
         case trust_history pid of
           Some entry \<Rightarrow>
             (let last_update = fe_timestamp entry;
                  days_passed = timedelta_days now last_update
              in case and_then (a_pow ar (Fin decay_factor) days_passed)
                        (\<lambda>factor. a_mul ar current_score factor) of
                   Inl e \<Rightarrow> (Inl e, trust_history)
                 | Inr decayed_score \<Rightarrow>
                     (Inr decayed_score,
                      trust_history(pid \<mapsto> \<lparr>fe_timestamp = now, fe_score = decayed_score\<rparr>)))
         | None \<Rightarrow>
             (Inr current_score,
              trust_history(pid \<mapsto> \<lparr>fe_timestamp = now, fe_score = current_score\<rparr>))))"

definition determine_trust_level :: "pynum \<Rightarrow> string" where
  "determine_trust_level trust_score =
     (if py_ge trust_score (Fin 0.9) then ''excellent''
      else if py_ge trust_score (Fin 0.8) then ''high''
      else if py_ge trust_score (Fin 0.7) then ''good''
      else if py_ge trust_score (Fin 0.6) then ''fair''
      else if py_ge trust_score (Fin 0.4) then ''low''
      else ''restricted'')"

type_synonym component_scores = "(component \<times> pynum) list"

definition score_of :: "component_scores \<Rightarrow> component \<Rightarrow> pynum" where
  \<comment> \<open>\<open>component_scores[component]\<close>; every component has been stored\<close>
  "score_of cs c = the (map_of cs c)"

definition calculate_confidence :: "arith \<Rightarrow> component_scores \<Rightarrow> exn + pynum" where
  "calculate_confidence ar cs =
     (let scores = map snd cs
      in if length scores < 2 then Inr (Fin 0.5)
         else and_then (a_var ar scores) (\<lambda>variance.
              and_then (a_mul ar variance (Fin 5)) (\<lambda>scaled.
              and_then (a_sub ar (Fin 1) (py_min (Fin 1) scaled)) (\<lambda>consistency.
              and_then (a_div ar (Fin (real (length scores))) (Fin 6)) (\<lambda>q.
              (let data_sufficiency = py_min (Fin 1) q
               in and_then (a_add ar consistency data_sufficiency) (\<lambda>total.
                  a_div ar total (Fin 2))))))))"

definition score_or_zero :: "component_scores \<Rightarrow> component \<Rightarrow> pynum" where
  \<comment> \<open>\<open>component_scores.get(component, 0)\<close>\<close>
  "score_or_zero cs c = getd (map_of cs c) (Fin 0)"

definition generate_trust_recommendations :: "component_scores \<Rightarrow> string list" where
  "generate_trust_recommendations cs =
       (if py_lt (score_or_zero cs BehaviorConsistency) (Fin 0.7)
        then [''Improve behavior consistency''] else [])
     @ (if py_lt (score_or_zero cs LocationVerification) (Fin 0.6)
        then [''Verify location accuracy''] else [])
     @ (if py_lt (score_or_zero cs SocialBehavior) (Fin 0.5)
        then [''Engage in positive social interactions''] else [])
     @ (if py_lt (score_or_zero cs DeviceReputation) (Fin 0.6)
        then [''Maintain consistent device usage''] else [])"

record trust_result =
  tr_trust_score :: pynum
  tr_trust_level :: string
  tr_component_scores :: component_scores
  tr_confidence :: pynum
  tr_recommendations :: "string list"

fun weighted_loop ::
  "arith \<Rightarrow> component_scores \<Rightarrow> (component \<times> real) list \<Rightarrow> pynum \<Rightarrow> exn + pynum" where
  \<comment> \<open>the loop \<open>for component, weight in self.trust_weights.items()\<close>\<close>
  "weighted_loop ar cs [] trust_score = Inr trust_score"
| "weighted_loop ar cs ((c, weight) # rest) trust_score =
     and_then (a_mul ar (score_of cs c) (Fin weight)) (\<lambda>weighted.
     and_then (a_add ar trust_score weighted) (\<lambda>trust_score.
     weighted_loop ar cs rest trust_score))"

definition component_scores_of ::
  "arith \<Rightarrow> ts_player \<Rightarrow> ts_verification_results \<Rightarrow> exn + component_scores" where
  \<comment> \<open>the six assignments to \<open>component_scores\<close>, in the order of the source\<close>
  "component_scores_of ar pd vr =
     and_then (calculate_behavior_consistency ar pd) (\<lambda>behavior.
     and_then (calculate_location_trust ar vr) (\<lambda>location.
     and_then (calculate_historical_performance ar pd) (\<lambda>historical.
     and_then (calculate_social_behavior ar pd) (\<lambda>social.
     and_then (calculate_device_reputation ar pd) (\<lambda>device.
     and_then (calculate_temporal_consistency ar pd) (\<lambda>temporal.
     Inr [(BehaviorConsistency, behavior), (LocationVerification, location),
          (HistoricalPerformance, historical), (SocialBehavior, social),
          (DeviceReputation, device), (TemporalPatterns, temporal)]))))))"

definition calculate_trust_score ::
  "arith \<Rightarrow> int \<Rightarrow> fl_trust_history \<Rightarrow> ts_player \<Rightarrow> ts_verification_results \<Rightarrow>
   (exn + trust_result) \<times> fl_trust_history" where
  \<comment> \<open>the second component is \<open>self.trust_history\<close> after the call, also when the call
     raises\<close>
  "calculate_trust_score ar now trust_history pd vr =
     (case and_then (component_scores_of ar pd vr) (\<lambda>cs.
           and_then (weighted_loop ar cs trust_weights (Fin 0)) (\<lambda>trust_score.
           Inr (cs, trust_score))) of
        Inl e \<Rightarrow> (Inl e, trust_history)
      | Inr (cs, trust_score) \<Rightarrow>
          (case apply_trust_decay_fl ar now trust_history (ts_player_id pd) trust_score of
             (Inl e, trust_history') \<Rightarrow> (Inl e, trust_history')
           | (Inr trust_score, trust_history') \<Rightarrow>
               (let trust_level = determine_trust_level trust_score
                in (and_then (calculate_confidence ar cs) (\<lambda>confidence.
                    Inr \<lparr>tr_trust_score = py_max (Fin 0) (py_min (Fin 1) trust_score),
                         tr_trust_level = trust_level,
                         tr_component_scores = cs,
                         tr_confidence = confidence,
                         tr_recommendations = generate_trust_recommendations cs\<rparr>),
                    trust_history'))))"

section \<open>PatternAnalyzer\<close>

datatype pattern =
    SpeedHacking
  | LocationSpoofing
  | MultipleAccounts
  | AutomationDetection
  | CollaborativeCheating

definition cheating_patterns :: "pattern list" where
  \<comment> \<open>the keys of \<open>self.cheating_patterns\<close>, in insertion order\<close>
  "cheating_patterns =
     [SpeedHacking, LocationSpoofing, MultipleAccounts, AutomationDetection,
      CollaborativeCheating]"

fun threshold :: "pattern \<Rightarrow> real" where
  "threshold SpeedHacking = 0.8"
| "threshold LocationSpoofing = 0.7"
| "threshold MultipleAccounts = 0.6"
| "threshold AutomationDetection = 0.75"
| "threshold CollaborativeCheating = 0.65"

fun weight :: "pattern \<Rightarrow> real" where
  "weight SpeedHacking = 0.9"
| "weight LocationSpoofing = 0.8"
| "weight MultipleAccounts = 0.7"
| "weight AutomationDetection = 0.85"
| "weight CollaborativeCheating = 0.6"

record pa_location =
  pl_lat :: "real option"
  pl_lon :: "real option"
  pl_timestamp :: "real option"

record pa_location_data =
  pa_movement_history :: "pa_location list option"
  pa_gps_issues :: "string list option"
  pa_is_mock_provider :: "bool option"

record movement_patterns =
  mp_perfect_linearity :: "bool option"

record interaction_patterns =
  ia_click_intervals :: "real list option"
  ia_movement_patterns :: "movement_patterns option"

record communication_patterns =
  cp_message_frequency :: "real option"
  cp_solution_sharing :: "real option"

record pa_player =
  pa_player_id :: "string option"
  pa_solving_times :: "real list option"
  pa_success_rate :: "real option"
  pa_location_data :: "pa_location_data option"
  pa_device_fingerprint :: "string option"
  pa_ip_address :: "string option"
  pa_interaction_patterns :: "interaction_patterns option"
  pa_movement_efficiency :: "real option"
  pa_social_connections :: "string list option"
  pa_communication_patterns :: "communication_patterns option"

record pa_context =
  cx_similar_devices :: "string list option"
  cx_accounts_per_ip :: "(string \<rightharpoonup> real) option"
  cx_similar_players :: "string list option"
  cx_coordinated_actions :: "string list option"

datatype evidence =
    ExtremelyFastSolving real
  | VeryFastSolving real
  | PerfectSuccessFastSolving real
  | ImpossibleMovements nat
  | GpsInconsistencies "string list"
  | MockProviderDetected
  | DeviceUsedForAccounts nat
  | MultipleAccountsSameIp real
  | HighBehavioralSimilarity real
  | SuspiciousTimingConsistency real
  | PerfectMovementEfficiency real
  | MechanicalInteraction
  | InformationSharing
  | CoordinatedSolving
  | HighDensityNetwork real

definition analyze_speed_hacking :: "pa_player \<Rightarrow> pa_context \<Rightarrow> real \<times> evidence list" where
  "analyze_speed_hacking pd cx =
     (let evidence = [];
          score = 0;
          solving_times = getd (pa_solving_times pd) [];
          success_rate = getd (pa_success_rate pd) 0.5;
          (score, evidence) =
            (if solving_times \<noteq> [] then
               (let avg_solving_time = np_mean solving_times
                in if avg_solving_time < 20
                   then (score + 0.8, evidence @ [ExtremelyFastSolving avg_solving_time])
                   else if avg_solving_time < 40
                   then (score + 0.5, evidence @ [VeryFastSolving avg_solving_time])
                   else (score, evidence))
             else (score, evidence));
          (score, evidence) =
            (if success_rate > 0.95 \<and> length solving_times > 5
             then (score + 0.3, evidence @ [PerfectSuccessFastSolving success_rate])
             else (score, evidence))
      in (min 1 score, evidence))"

definition pa_calculate_distance :: "pa_location \<Rightarrow> pa_location \<Rightarrow> real" where
  \<comment> \<open>\<open>PatternAnalyzer._calculate_distance\<close>: the simplified distance\<close>
  "pa_calculate_distance loc1 loc2 =
     (let lat_diff = \<bar>getd (pl_lat loc1) 0 - getd (pl_lat loc2) 0\<bar>;
          lon_diff = \<bar>getd (pl_lon loc1) 0 - getd (pl_lon loc2) 0\<bar>
      in (lat_diff + lon_diff) * 111000)"

fun detect_impossible_movements :: "pa_location list \<Rightarrow> nat \<Rightarrow> nat" where
  \<comment> \<open>the loop of \<open>_detect_impossible_movements\<close>; the second argument is
     \<open>impossible_count\<close>\<close>
  "detect_impossible_movements (prv # cur # rest) impossible_count =
     (let distance = pa_calculate_distance prv cur;
          time_diff = getd (pl_timestamp cur) 0 - getd (pl_timestamp prv) 0
      in if time_diff > 0 then
           (let speed = distance / time_diff
            in if speed > 100
               then detect_impossible_movements (cur # rest) (impossible_count + 1)
               else detect_impossible_movements (cur # rest) impossible_count)
         else detect_impossible_movements (cur # rest) impossible_count)"
| "detect_impossible_movements _ impossible_count = impossible_count"

definition empty_pa_location_data :: pa_location_data where
  "empty_pa_location_data =
     \<lparr>pa_movement_history = None, pa_gps_issues = None, pa_is_mock_provider = None\<rparr>"

definition analyze_location_spoofing :: "pa_player \<Rightarrow> pa_context \<Rightarrow> real \<times> evidence list" where
  "analyze_location_spoofing pd cx =
     (let evidence = [];
          score = 0;
          location_data = getd (pa_location_data pd) empty_pa_location_data;
          movement_history = getd (pa_movement_history location_data) [];
          impossible_movements = detect_impossible_movements movement_history 0;
          (score, evidence) =
            (if impossible_movements \<noteq> 0
             then (score + 0.6, evidence @ [ImpossibleMovements impossible_movements])
             else (score, evidence));
          gps_issues = getd (pa_gps_issues location_data) [];
          (score, evidence) =
            (if gps_issues \<noteq> []
             then (score + 0.4, evidence @ [GpsInconsistencies gps_issues])
             else (score, evidence));
          (score, evidence) =
            (if getd (pa_is_mock_provider location_data) False
             then (score + 0.8, evidence @ [MockProviderDetected])
             else (score, evidence))
      in (min 1 score, evidence))"

definition calculate_behavioral_similarity :: "pa_player \<Rightarrow> pa_context \<Rightarrow> real" where
  "calculate_behavioral_similarity pd cx =
     (let similar_players = getd (cx_similar_players cx) []
      in if similar_players = [] then 0
         else min 0.9 (real (length similar_players) * 0.1))"

definition opt_in :: "'a option \<Rightarrow> 'a list \<Rightarrow> bool" where
  \<comment> \<open>\<open>d.get(key) in xs\<close> for a list of present values: None is not in it\<close>
  "opt_in v xs = (case v of None \<Rightarrow> False | Some x \<Rightarrow> x \<in> set xs)"

definition analyze_multiple_accounts :: "pa_player \<Rightarrow> pa_context \<Rightarrow> real \<times> evidence list" where
  "analyze_multiple_accounts pd cx =
     (let evidence = [];
          score = 0;
          device_fingerprint = pa_device_fingerprint pd;
          ip_address = pa_ip_address pd;
          similar_devices = getd (cx_similar_devices cx) [];
          (score, evidence) =
            (if opt_in device_fingerprint similar_devices
             then (score + 0.5, evidence @ [DeviceUsedForAccounts (length similar_devices)])
             else (score, evidence));
          ip_accounts =
            (case ip_address of
               None \<Rightarrow> 0
             | Some a \<Rightarrow> getd (getd (cx_accounts_per_ip cx) Map.empty a) 0);
          (score, evidence) =
            (if ip_accounts > 3
             then (score + 0.4, evidence @ [MultipleAccountsSameIp ip_accounts])
             else (score, evidence));
          behavioral_similarity = calculate_behavioral_similarity pd cx;
          (score, evidence) =
            (if behavioral_similarity > 0.8
             then (score + 0.3, evidence @ [HighBehavioralSimilarity behavioral_similarity])
             else (score, evidence))
      in (min 1 score, evidence))"

definition calculate_timing_consistency :: "real list \<Rightarrow> real" where
  "calculate_timing_consistency solving_times =
     (if length solving_times < 2 then 0
      else (let mean_time = np_mean solving_times;
                std_dev = np_std solving_times
            in if mean_time = 0 then 0
               else (let cv = std_dev / mean_time in max 0 (1 - cv))))"

definition has_mechanical_patterns :: "interaction_patterns \<Rightarrow> bool" where
  "has_mechanical_patterns ip =
     (let click_intervals = getd (ia_click_intervals ip) []
      in if length click_intervals > 3 \<and> np_std click_intervals < 0.1 then True
         else (let movement_patterns =
                     getd (ia_movement_patterns ip) \<lparr>mp_perfect_linearity = None\<rparr>
               in if getd (mp_perfect_linearity movement_patterns) False then True
                  else False))"

definition analyze_automation :: "pa_player \<Rightarrow> pa_context \<Rightarrow> real \<times> evidence list" where
  "analyze_automation pd cx =
     (let evidence = [];
          score = 0;
          solving_times = getd (pa_solving_times pd) [];
          interaction_patterns =
            getd (pa_interaction_patterns pd)
              \<lparr>ia_click_intervals = None, ia_movement_patterns = None\<rparr>;
          (score, evidence) =
            (if length solving_times > 5 then
               (let timing_consistency = calculate_timing_consistency solving_times
                in if timing_consistency > 0.9
                   then (score + 0.7, evidence @ [SuspiciousTimingConsistency timing_consistency])
                   else (score, evidence))
             else (score, evidence));
          movement_efficiency = getd (pa_movement_efficiency pd) 0;
          (score, evidence) =
            (if movement_efficiency > 0.98
             then (score + 0.6, evidence @ [PerfectMovementEfficiency movement_efficiency])
             else (score, evidence));
          (score, evidence) =
            (if has_mechanical_patterns interaction_patterns
             then (score + 0.5, evidence @ [MechanicalInteraction])
             else (score, evidence))
      in (min 1 score, evidence))"

definition detect_information_sharing :: "communication_patterns \<Rightarrow> bool" where
  "detect_information_sharing cp =
     (let message_frequency = getd (cp_message_frequency cp) 0;
          solution_sharing = getd (cp_solution_sharing cp) 0
      in if message_frequency > 10 \<and> solution_sharing > 5 then True else False)"

definition calculate_network_density :: "string list \<Rightarrow> real" where
  "calculate_network_density social_connections =
     (if length social_connections < 2 then 0
      else (let n = real (length social_connections);
                max_possible_connections = n * (n - 1) / 2;
                actual_connections = min max_possible_connections (n * 2)
            in if max_possible_connections > 0
               then actual_connections / max_possible_connections else 0))"

definition analyze_collaborative_cheating ::
  "pa_player \<Rightarrow> pa_context \<Rightarrow> real \<times> evidence list" where
  "analyze_collaborative_cheating pd cx =
     (let evidence = [];
          score = 0;
          social_connections = getd (pa_social_connections pd) [];
          communication_patterns =
            getd (pa_communication_patterns pd)
              \<lparr>cp_message_frequency = None, cp_solution_sharing = None\<rparr>;
          (score, evidence) =
            (if detect_information_sharing communication_patterns
             then (score + 0.5, evidence @ [InformationSharing])
             else (score, evidence));
          coordinated_actions = getd (cx_coordinated_actions cx) [];
          (score, evidence) =
            (if opt_in (pa_player_id pd) coordinated_actions
             then (score + 0.4, evidence @ [CoordinatedSolving])
             else (score, evidence));
          (score, evidence) =
            (if length social_connections > 10 then
               (let network_density = calculate_network_density social_connections
                in if network_density > 0.8
                   then (score + 0.3, evidence @ [HighDensityNetwork network_density])
                   else (score, evidence))
             else (score, evidence))
      in (min 1 score, evidence))"

fun analyze_single_pattern :: "pattern \<Rightarrow> pa_player \<Rightarrow> pa_context \<Rightarrow> real \<times> evidence list" where
  "analyze_single_pattern SpeedHacking pd cx = analyze_speed_hacking pd cx"
| "analyze_single_pattern LocationSpoofing pd cx = analyze_location_spoofing pd cx"
| "analyze_single_pattern MultipleAccounts pd cx = analyze_multiple_accounts pd cx"
| "analyze_single_pattern AutomationDetection pd cx = analyze_automation pd cx"
| "analyze_single_pattern CollaborativeCheating pd cx = analyze_collaborative_cheating pd cx"

text \<open>
  The analyzer keeps two histories, \<open>self.player_patterns\<close> and \<open>self.global_patterns\<close>
  (both \<open>defaultdict\<close>s of lists); they are passed in and returned updated. The first
  argument of each function that reads the clock is that reading.
\<close>

record pa_state =
  player_patterns :: "string \<Rightarrow> pattern \<Rightarrow> (real \<times> int) list"
  global_patterns :: "pattern \<Rightarrow> int list"

definition last_n :: "nat \<Rightarrow> 'a list \<Rightarrow> 'a list" where
  \<comment> \<open>the slice \<open>xs[-n:]\<close> for a positive n\<close>
  "last_n n xs = drop (length xs - n) xs"

definition update_pattern_history ::
  "int \<Rightarrow> pa_state \<Rightarrow> string option \<Rightarrow> pattern \<Rightarrow> real \<Rightarrow> pa_state" where
  "update_pattern_history now st player_id pattern_name score =
     (if player_id = None \<or> player_id = Some [] then st
      else
        (let pid = the player_id;
             records = player_patterns st pid pattern_name @ [(score, now)];
             records = (if length records > 100 then last_n 100 records else records)
         in st\<lparr>player_patterns :=
                 (player_patterns st)(pid := (player_patterns st pid)(pattern_name := records))\<rparr>))"

fun update_global_patterns :: "int \<Rightarrow> pa_state \<Rightarrow> pattern list \<Rightarrow> pa_state" where
  "update_global_patterns now st [] = st"
| "update_global_patterns now st (p # rest) =
     (let stamps = global_patterns st p @ [now];
          stamps = (if length stamps > 1000 then last_n 1000 stamps else stamps)
      in update_global_patterns now (st\<lparr>global_patterns := (global_patterns st)(p := stamps)\<rparr>)
           rest)"

fun dict_set :: "'k \<Rightarrow> 'v \<Rightarrow> ('k \<times> 'v) list \<Rightarrow> ('k \<times> 'v) list" where
  \<comment> \<open>\<open>d[k] = v\<close> on a dictionary kept in insertion order\<close>
  "dict_set k v [] = [(k, v)]"
| "dict_set k v ((k', v') # rest) =
     (if k = k' then (k, v) # rest else (k', v') # dict_set k v rest)"

fun risk_loop :: "(pattern \<times> real) list \<Rightarrow> real \<times> real \<Rightarrow> real \<times> real" where
  \<comment> \<open>the loop of \<open>_calculate_overall_risk\<close> over \<open>pattern_scores.items()\<close>\<close>
  "risk_loop [] (weighted_sum, total_weight) = (weighted_sum, total_weight)"
| "risk_loop ((pattern_name, score) # rest) (weighted_sum, total_weight) =
     risk_loop rest (weighted_sum + score * weight pattern_name,
                     total_weight + weight pattern_name)"

definition calculate_overall_risk :: "(pattern \<times> real) list \<Rightarrow> real" where
  "calculate_overall_risk pattern_scores =
     (if pattern_scores = [] then 0
      else (let (weighted_sum, total_weight) = risk_loop pattern_scores (0, 0)
            in if total_weight > 0 then weighted_sum / total_weight else 0))"

fun pattern_recommendation :: "pattern \<Rightarrow> string" where
  "pattern_recommendation SpeedHacking = ''Monitor solving times and implement rate limiting''"
| "pattern_recommendation LocationSpoofing = ''Require additional location verification''"
| "pattern_recommendation MultipleAccounts = ''Investigate device and IP patterns''"
| "pattern_recommendation AutomationDetection = ''Implement CAPTCHA or behavioral challenges''"
| "pattern_recommendation CollaborativeCheating =
     ''Monitor social interactions and solution sharing''"

definition generate_pattern_recommendations :: "pattern list \<Rightarrow> string list" where
  "generate_pattern_recommendations detected_patterns =
     (let recommendations = map pattern_recommendation detected_patterns
      in if recommendations = [] then [''No immediate action required'']
         else recommendations)"

definition calculate_analysis_confidence :: "pa_player \<Rightarrow> real" where
  "calculate_analysis_confidence pd =
     (let data_points = length (getd (pa_solving_times pd) []);
          location_points =
            length (getd (pa_movement_history
                            (getd (pa_location_data pd) empty_pa_location_data)) []);
          data_sufficiency = min 1 (real (data_points + location_points) / 20)
      in data_sufficiency)"

record analysis =
  an_overall_risk_score :: real
  an_detected_patterns :: "pattern list"
  an_pattern_scores :: "(pattern \<times> real) list"
  an_evidence :: "pattern \<rightharpoonup> evidence list"
  an_recommendations :: "string list"
  an_confidence :: real

record loop_vars =
  lv_pattern_scores :: "(pattern \<times> real) list"
  lv_detected_patterns :: "pattern list"
  lv_evidence :: "pattern \<rightharpoonup> evidence list"
  lv_state :: pa_state

fun patterns_loop ::
  "int \<Rightarrow> pa_player \<Rightarrow> pa_context \<Rightarrow> pattern list \<Rightarrow> loop_vars \<Rightarrow> loop_vars" where
  \<comment> \<open>the loop \<open>for pattern_name, pattern_config in self.cheating_patterns.items()\<close>\<close>
  "patterns_loop now pd cx [] v = v"
| "patterns_loop now pd cx (pattern_name # rest) v =
     (let (score, pattern_evidence) = analyze_single_pattern pattern_name pd cx;
          pattern_scores = dict_set pattern_name score (lv_pattern_scores v);
          (detected_patterns, evidence) =
            (if score \<ge> threshold pattern_name
             then (lv_detected_patterns v @ [pattern_name],
                   (lv_evidence v)(pattern_name \<mapsto> pattern_evidence))
             else (lv_detected_patterns v, lv_evidence v));
          st = update_pattern_history now (lv_state v) (pa_player_id pd) pattern_name score
      in patterns_loop now pd cx rest
           \<lparr>lv_pattern_scores = pattern_scores, lv_detected_patterns = detected_patterns,
            lv_evidence = evidence, lv_state = st\<rparr>)"

definition analyze_behavior_patterns ::
  "int \<Rightarrow> pa_state \<Rightarrow> pa_player \<Rightarrow> pa_context \<Rightarrow> analysis \<times> pa_state" where
  "analyze_behavior_patterns now st pd cx =
     (let v = patterns_loop now pd cx cheating_patterns
                \<lparr>lv_pattern_scores = [], lv_detected_patterns = [], lv_evidence = Map.empty,
                 lv_state = st\<rparr>;
          overall_risk = calculate_overall_risk (lv_pattern_scores v);
          st' = update_global_patterns now (lv_state v) (lv_detected_patterns v)
      in (\<lparr>an_overall_risk_score = overall_risk,
           an_detected_patterns = lv_detected_patterns v,
           an_pattern_scores = lv_pattern_scores v,
           an_evidence = lv_evidence v,
           an_recommendations = generate_pattern_recommendations (lv_detected_patterns v),
           an_confidence = calculate_analysis_confidence pd\<rparr>, st'))"

section \<open>AnomalyDetector\<close>

record ad_player =
  ad_avg_solving_time :: "real option"
  ad_time_variance :: "real option"
  ad_session_duration_avg :: "real option"
  ad_success_rate :: "real option"
  ad_streak_consistency :: "real option"
  ad_failure_recovery_time :: "real option"
  ad_movement_efficiency :: "real option"
  ad_location_accuracy_avg :: "real option"
  ad_unusual_movements :: "real option"
  ad_hint_usage_rate :: "real option"
  ad_retry_frequency :: "real option"
  ad_exploration_thoroughness :: "real option"
  ad_device_consistency :: "real option"
  ad_connection_stability :: "real option"

text \<open>
  The isolation forest is a library object. Its two calls are parameters of the model:
  each takes the feature vector and returns a value or raises.
\<close>

record anomaly_model =
  decision_function :: "real list \<Rightarrow> exn + real"
  predict :: "real list \<Rightarrow> exn + int"

definition extract_anomaly_features :: "ad_player \<Rightarrow> ad_player list \<Rightarrow> real list" where
  "extract_anomaly_features pd historical_data =
     [getd (ad_avg_solving_time pd) 180,
      getd (ad_time_variance pd) 60,
      getd (ad_session_duration_avg pd) 1200,
      getd (ad_success_rate pd) 0.5,
      getd (ad_streak_consistency pd) 0.5,
      getd (ad_failure_recovery_time pd) 300,
      getd (ad_movement_efficiency pd) 0.5,
      getd (ad_location_accuracy_avg pd) 0.8,
      getd (ad_unusual_movements pd) 0,
      getd (ad_hint_usage_rate pd) 0.3,
      getd (ad_retry_frequency pd) 0.2,
      getd (ad_exploration_thoroughness pd) 0.6,
      getd (ad_device_consistency pd) 1.0,
      getd (ad_connection_stability pd) 0.9]"

definition py_index :: "'a list \<Rightarrow> nat \<Rightarrow> exn + 'a" where
  \<comment> \<open>\<open>xs[i]\<close> for a non-negative i: out of range raises IndexError\<close>
  "py_index xs i = (if i < length xs then Inr (xs ! i) else Inl IndexError)"

definition classify_anomaly_type :: "real list \<Rightarrow> ad_player \<Rightarrow> exn + string" where
  "classify_anomaly_type features pd =
     (case (py_index features 0, py_index features 3, py_index features 6,
            py_index features 9) of
        (Inr solving_time, Inr success_rate, Inr movement_efficiency, Inr hint_usage) \<Rightarrow>
          Inr (if solving_time < 30 \<and> success_rate > 0.9 then ''unnatural_speed''
               else if movement_efficiency > 0.95 \<and> success_rate > 0.95
               then ''perfect_movement''
               else if hint_usage < 0.1 \<and> success_rate > 0.9 then ''low_hint_high_success''
               else if solving_time < 20 then ''extremely_fast_solving''
               else ''behavioral_shift'')
      | _ \<Rightarrow> Inl IndexError)"

definition risk_factors :: "string \<Rightarrow> real" where
  \<comment> \<open>\<open>risk_factors.get(anomaly_type, 0.5)\<close>\<close>
  "risk_factors anomaly_type =
     (if anomaly_type = ''unnatural_speed'' then 0.8
      else if anomaly_type = ''perfect_movement'' then 0.9
      else if anomaly_type = ''low_hint_high_success'' then 0.7
      else if anomaly_type = ''extremely_fast_solving'' then 0.85
      else if anomaly_type = ''behavioral_shift'' then 0.5
      else 0.5)"

definition assess_risk_level :: "real \<Rightarrow> string \<Rightarrow> string" where
  "assess_risk_level anomaly_score anomaly_type =
     (let base_risk = anomaly_score;
          type_multiplier = risk_factors anomaly_type;
          weighted_risk = base_risk * type_multiplier
      in if weighted_risk > 0.8 then ''high''
         else if weighted_risk > 0.6 then ''medium''
         else if weighted_risk > 0.4 then ''low''
         else ''minimal'')"

record anomaly_result =
  ar_anomaly_score :: real
  ar_is_anomaly :: bool
  ar_confidence :: real
  ar_anomaly_type :: string
  ar_risk_level :: "string option"

definition scoring_step :: "anomaly_model \<Rightarrow> real list \<Rightarrow> ad_player \<Rightarrow> exn + anomaly_result" where
  \<comment> \<open>the body of the \<open>try\<close> block of \<open>detect_behavior_anomalies\<close>\<close>
  "scoring_step m features pd =
     (case decision_function m features of
        Inl e \<Rightarrow> Inl e
      | Inr anomaly_score \<Rightarrow>
          (case predict m features of
             Inl e \<Rightarrow> Inl e
           | Inr prediction \<Rightarrow>
               (let is_anomaly = (prediction = - 1);
                    normalized_score = (anomaly_score + 0.5) / 1
                in case classify_anomaly_type features pd of
                     Inl e \<Rightarrow> Inl e
                   | Inr anomaly_type \<Rightarrow>
                       Inr \<lparr>ar_anomaly_score = normalized_score,
                            ar_is_anomaly = is_anomaly,
                            ar_confidence = \<bar>anomaly_score\<bar>,
                            ar_anomaly_type = anomaly_type,
                            ar_risk_level =
                              Some (assess_risk_level normalized_score anomaly_type)\<rparr>)))"

definition detect_behavior_anomalies ::
  "anomaly_model \<Rightarrow> ad_player \<Rightarrow> ad_player list \<Rightarrow> exn + anomaly_result" where
  \<comment> \<open>the result is a sum so that an exception leaving the function would be \<open>Inl\<close>\<close>
  "detect_behavior_anomalies m pd historical_data =
     (let features = extract_anomaly_features pd historical_data
      in if length features = 0 then
           Inr \<lparr>ar_anomaly_score = 0, ar_is_anomaly = False, ar_confidence = 0,
                ar_anomaly_type = ''insufficient_data'', ar_risk_level = None\<rparr>
         else
           (case scoring_step m features pd of
              Inr r \<Rightarrow> Inr r
            | Inl e \<Rightarrow>
                Inr \<lparr>ar_anomaly_score = 0.5, ar_is_anomaly = False, ar_confidence = 0,
                     ar_anomaly_type = ''detection_failed'', ar_risk_level = None\<rparr>))"

section \<open>FraudDetector\<close>

text \<open>
  \<open>_is_rounded_coordinate\<close> works on \<open>str(lat)\<close> and \<open>str(lon)\<close>. A coordinate is a
  Python number: an \<open>int\<close>, printed in decimal without a point, or a \<open>float\<close>, which is
  given here by its printed form (the shortest string that reads back as the same float,
  such as \<open>12.5\<close>, \<open>77.0\<close> or \<open>1e-05\<close>); the printing of floats itself is not modelled.
\<close>

datatype coordinate = IntCoord int | FloatCoord string

fun digits :: "nat \<Rightarrow> string" where
  "digits n =
     (if n < 10 then [''0123456789'' ! n]
      else digits (n div 10) @ [''0123456789'' ! (n mod 10)])"

declare digits.simps [simp del]

fun py_str :: "coordinate \<Rightarrow> string" where
  "py_str (IntCoord i) = (if i < 0 then CHR ''-'' # digits (nat (- i)) else digits (nat i))"
| "py_str (FloatCoord s) = s"

fun split_on :: "char \<Rightarrow> string \<Rightarrow> string \<Rightarrow> string list" where
  \<comment> \<open>the pieces of a string between separators; the third argument is the piece
     being read\<close>
  "split_on c [] piece = [piece]"
| "split_on c (x # xs) piece =
     (if x = c then piece # split_on c xs [] else split_on c xs (piece @ [x]))"

definition py_split :: "char \<Rightarrow> string \<Rightarrow> string list" where
  \<comment> \<open>\<open>s.split(c)\<close> for a separator of one character\<close>
  "py_split c s = split_on c s []"

definition is_rounded_coordinate :: "coordinate \<Rightarrow> coordinate \<Rightarrow> bool" where
  "is_rounded_coordinate lat_c lon_c =
     (let lat_str = py_str lat_c;
          lon_str = py_str lon_c
      in if CHR ''.'' \<in> set lat_str \<and> length (py_split CHR ''.'' lat_str ! 1) < 4 then True
         else if CHR ''.'' \<in> set lon_str \<and> length (py_split CHR ''.'' lon_str ! 1) < 4
         then True
         else False)"

record coord_pair =
  cp_lat :: "coordinate option"
  cp_lon :: "coordinate option"

record fd_location_data =
  fd_is_mock_provider :: "bool option"
  fd_gps_accuracy :: "real option"
  fd_location_history :: "location list option"
  fd_locations :: "coord_pair list option"

record fd_player =
  fd_player_id :: "string option"
  fd_location_data :: "fd_location_data option"
  fd_device_fingerprint :: "string option"
  fd_ip_address :: "string option"
  fd_solving_times :: "real list option"
  fd_success_rate :: "real option"
  fd_movement_efficiency :: "real option"
  fd_social_connections :: "string list option"
  fd_communication_frequency :: "real option"
  fd_recent_solve_times :: "real list option"

record fd_context =
  gc_similar_players :: "string list option"
  gc_players_per_ip :: "(string \<rightharpoonup> real) option"
  gc_coordinated_movements :: "string list option"
  gc_similar_solutions :: "real option"

record activity =
  act_account_count :: "real option"

type_synonym suspicious_activities = "string \<rightharpoonup> activity"

datatype fraud_pattern =
    FraudLocationSpoofing
  | FraudMultipleAccounts
  | FraudAutomationDetection
  | FraudCollaborativeCheating

fun risk_score_of :: "fraud_pattern \<Rightarrow> real" where
  \<comment> \<open>\<open>self.fraud_patterns[name]['risk_score']\<close>\<close>
  "risk_score_of FraudLocationSpoofing = 0.8"
| "risk_score_of FraudMultipleAccounts = 0.7"
| "risk_score_of FraudAutomationDetection = 0.9"
| "risk_score_of FraudCollaborativeCheating = 0.6"

fun pattern_name :: "fraud_pattern \<Rightarrow> string" where
  "pattern_name FraudLocationSpoofing = ''location_spoofing''"
| "pattern_name FraudMultipleAccounts = ''multiple_accounts''"
| "pattern_name FraudAutomationDetection = ''automation_detection''"
| "pattern_name FraudCollaborativeCheating = ''collaborative_cheating''"

fun mitigation :: "fraud_pattern \<Rightarrow> string" where
  "mitigation FraudLocationSpoofing = ''require_additional_verification''"
| "mitigation FraudMultipleAccounts = ''investigate_relationships''"
| "mitigation FraudAutomationDetection = ''challenge_response_test''"
| "mitigation FraudCollaborativeCheating = ''monitor_social_graph''"

datatype fd_evidence =
    FdMockProvider
  | FdPoorGpsAccuracy real
  | FdImpossibleMovement
  | FdCoordinateRounding
  | FdSameDevice real
  | FdSimilarBehavior nat
  | FdPlayersSameIp real
  | FdFastSolving real
  | FdConsistentTiming real
  | FdHighSuccessRate real
  | FdPerfectEfficiency real
  | FdInformationSharing
  | FdCoordinatedMovement
  | FdRapidSuccession

record detection =
  dt_detected :: bool
  dt_evidence :: "fd_evidence list"
  dt_risk_level :: string

definition fd_calculate_distance :: "location \<Rightarrow> location \<Rightarrow> real" where
  \<comment> \<open>\<open>FraudDetector._calculate_distance\<close>: the simplified distance\<close>
  "fd_calculate_distance loc1 loc2 =
     (let lat_diff = \<bar>lat loc1 - lat loc2\<bar>;
          lon_diff = \<bar>lon loc1 - lon loc2\<bar>
      in (lat_diff + lon_diff) * 111000)"

fun impossible_loop :: "location list \<Rightarrow> bool" where
  \<comment> \<open>the loop of \<open>_check_impossible_movements\<close>, which returns at the first hit\<close>
  "impossible_loop (prv # cur # rest) =
     (let distance = fd_calculate_distance prv cur;
          time_diff = getd (timestamp cur) 0 - getd (timestamp prv) 0
      in if time_diff > 0 then
           (let speed_kmh = (distance / 1000) / (time_diff / 3600)
            in if speed_kmh > 500 then True else impossible_loop (cur # rest))
         else impossible_loop (cur # rest))"
| "impossible_loop _ = False"

definition empty_fd_location_data :: fd_location_data where
  "empty_fd_location_data =
     \<lparr>fd_is_mock_provider = None, fd_gps_accuracy = None, fd_location_history = None,
      fd_locations = None\<rparr>"

definition check_impossible_movements :: "fd_location_data \<Rightarrow> bool" where
  "check_impossible_movements location_data =
     (let location_history = getd (fd_location_history location_data) []
      in if length location_history < 2 then False
         else impossible_loop location_history)"

fun rounding_loop :: "coord_pair list \<Rightarrow> nat \<Rightarrow> nat" where
  \<comment> \<open>the loop of \<open>_check_coordinate_rounding\<close>; the second argument is \<open>rounded_count\<close>\<close>
  "rounding_loop [] rounded_count = rounded_count"
| "rounding_loop (location # rest) rounded_count =
     (let lat_c = getd (cp_lat location) (IntCoord 0);
          lon_c = getd (cp_lon location) (IntCoord 0)
      in rounding_loop rest
           (if is_rounded_coordinate lat_c lon_c then rounded_count + 1 else rounded_count))"

definition check_coordinate_rounding :: "fd_location_data \<Rightarrow> bool" where
  "check_coordinate_rounding location_data =
     (let locations = getd (fd_locations location_data) []
      in if locations = [] then False
         else (let rounded_count = rounding_loop locations 0
               in real rounded_count / real (length locations) > 0.5))"

definition detect_location_fraud :: "fd_player \<Rightarrow> detection" where
  "detect_location_fraud pd =
     (let evidence = [];
          detected = False;
          location_data = getd (fd_location_data pd) empty_fd_location_data;
          (evidence, detected) =
            (if getd (fd_is_mock_provider location_data) False
             then (evidence @ [FdMockProvider], True) else (evidence, detected));
          gps_accuracy = getd (fd_gps_accuracy location_data) 0;
          (evidence, detected) =
            (if gps_accuracy > 1000
             then (evidence @ [FdPoorGpsAccuracy gps_accuracy], True) else (evidence, detected));
          (evidence, detected) =
            (if check_impossible_movements location_data
             then (evidence @ [FdImpossibleMovement], True) else (evidence, detected));
          (evidence, detected) =
            (if check_coordinate_rounding location_data
             then (evidence @ [FdCoordinateRounding], True) else (evidence, detected))
      in \<lparr>dt_detected = detected, dt_evidence = evidence,
          dt_risk_level = (if detected then ''high'' else ''low'')\<rparr>)"

definition detect_multiple_accounts ::
  "suspicious_activities \<Rightarrow> fd_player \<Rightarrow> fd_context \<Rightarrow> detection" where
  "detect_multiple_accounts suspicious pd gc =
     (let evidence = [];
          detected = False;
          device_fingerprint = getd (fd_device_fingerprint pd) [];
          ip_address = getd (fd_ip_address pd) [];
          (evidence, detected) =
            (case suspicious device_fingerprint of
               Some a \<Rightarrow>
                 (let account_count = getd (act_account_count a) 0
                  in if account_count > 2
                     then (evidence @ [FdSameDevice account_count], True)
                     else (evidence, detected))
             | None \<Rightarrow> (evidence, detected));
          similar_players = getd (gc_similar_players gc) [];
          (evidence, detected) =
            (if length similar_players > 3
             then (evidence @ [FdSimilarBehavior (length similar_players)], True)
             else (evidence, detected));
          ip_players = getd (getd (gc_players_per_ip gc) Map.empty ip_address) 0;
          (evidence, detected) =
            (if ip_players > 5
             then (evidence @ [FdPlayersSameIp ip_players], True)
             else (evidence, detected))
      in \<lparr>dt_detected = detected, dt_evidence = evidence,
          dt_risk_level = (if detected then ''medium'' else ''low'')\<rparr>)"

definition calculate_std_dev :: "real list \<Rightarrow> real" where
  "calculate_std_dev vals =
     (if length vals < 2 then 0
      else (let mean = sum_list vals / real (length vals);
                variance = sum_list (map (\<lambda>x. (x - mean)\<^sup>2) vals) / real (length vals)
            in sqrt variance))"

definition detect_automation :: "fd_player \<Rightarrow> detection" where
  "detect_automation pd =
     (let evidence = [];
          detected = False;
          solving_times = getd (fd_solving_times pd) [];
          (evidence, detected) =
            (if solving_times \<noteq> [] then
               (let avg_time = sum_list solving_times / real (length solving_times);
                    (evidence, detected) =
                      (if avg_time < 30
                       then (evidence @ [FdFastSolving avg_time], True)
                       else (evidence, detected))
                in if length solving_times > 5 then
                     (let std_dev = calculate_std_dev solving_times
                      in if std_dev < 5
                         then (evidence @ [FdConsistentTiming std_dev], True)
                         else (evidence, detected))
                   else (evidence, detected))
             else (evidence, detected));
          success_rate = getd (fd_success_rate pd) 0.5;
          (evidence, detected) =
            (if success_rate > 0.95
             then (evidence @ [FdHighSuccessRate success_rate], True)
             else (evidence, detected));
          movement_efficiency = getd (fd_movement_efficiency pd) 0.5;
          (evidence, detected) =
            (if movement_efficiency > 0.98
             then (evidence @ [FdPerfectEfficiency movement_efficiency], True)
             else (evidence, detected))
      in \<lparr>dt_detected = detected, dt_evidence = evidence,
          dt_risk_level = (if detected then ''high'' else ''low'')\<rparr>)"

definition check_information_sharing :: "fd_player \<Rightarrow> fd_context \<Rightarrow> bool" where
  "check_information_sharing pd gc =
     (let communication_frequency = getd (fd_communication_frequency pd) 0;
          similar_solutions = getd (gc_similar_solutions gc) 0
      in communication_frequency > 10 \<and> similar_solutions > 5)"

definition check_rapid_succession_solves :: "fd_player \<Rightarrow> fd_context \<Rightarrow> bool" where
  "check_rapid_succession_solves pd gc =
     (let solve_times = getd (fd_recent_solve_times pd) []
      in if length solve_times < 3 then False
         else (let time_differences = map (\<lambda>(a, b). b - a) (zip solve_times (tl solve_times));
                   avg_time_diff = sum_list time_differences / real (length time_differences)
               in avg_time_diff < 60))"

definition detect_collaborative_cheating :: "fd_player \<Rightarrow> fd_context \<Rightarrow> detection" where
  "detect_collaborative_cheating pd gc =
     (let evidence = [];
          detected = False;
          (evidence, detected) =
            (if check_information_sharing pd gc
             then (evidence @ [FdInformationSharing], True) else (evidence, detected));
          coordinated_movements = getd (gc_coordinated_movements gc) [];
          (evidence, detected) =
            (if opt_in (fd_player_id pd) coordinated_movements
             then (evidence @ [FdCoordinatedMovement], True) else (evidence, detected));
          (evidence, detected) =
            (if check_rapid_succession_solves pd gc
             then (evidence @ [FdRapidSuccession], True) else (evidence, detected))
      in \<lparr>dt_detected = detected, dt_evidence = evidence,
          dt_risk_level = (if detected then ''medium'' else ''low'')\<rparr>)"

definition generate_fraud_recommendations :: "fraud_pattern list \<Rightarrow> string list" where
  "generate_fraud_recommendations patterns =
     (let recommendations = map (\<lambda>p. pattern_name p @ '': '' @ mitigation p) patterns
      in if recommendations = [] then [''No immediate action required'']
         else recommendations)"

definition calculate_fraud_confidence :: "(string \<times> fd_evidence list) list \<Rightarrow> real" where
  "calculate_fraud_confidence evidence =
     (let total_evidence = sum_list (map (\<lambda>(category, items). length items) evidence);
          confidence = min 1 (real total_evidence / 10)
      in confidence)"

record fraud_result =
  fr_detected_patterns :: "fraud_pattern list"
  fr_risk_score :: real
  fr_evidence :: "(string \<times> fd_evidence list) list"
  fr_recommendations :: "string list"
  fr_confidence :: real

definition detect_fraud_patterns ::
  "suspicious_activities \<Rightarrow> fd_player \<Rightarrow> fd_context \<Rightarrow> fraud_result" where
  "detect_fraud_patterns suspicious pd gc =
     (let detected_patterns = [];
          risk_score = 0;
          evidence = [];
          location_fraud = detect_location_fraud pd;
          (detected_patterns, risk_score, evidence) =
            (if dt_detected location_fraud
             then (detected_patterns @ [FraudLocationSpoofing],
                   max risk_score (risk_score_of FraudLocationSpoofing),
                   dict_set ''location'' (dt_evidence location_fraud) evidence)
             else (detected_patterns, risk_score, evidence));
          multi_account = detect_multiple_accounts suspicious pd gc;
          (detected_patterns, risk_score, evidence) =
            (if dt_detected multi_account
             then (detected_patterns @ [FraudMultipleAccounts],
                   max risk_score (risk_score_of FraudMultipleAccounts),
                   dict_set ''multi_account'' (dt_evidence multi_account) evidence)
             else (detected_patterns, risk_score, evidence));
          automation = detect_automation pd;
          (detected_patterns, risk_score, evidence) =
            (if dt_detected automation
             then (detected_patterns @ [FraudAutomationDetection],
                   max risk_score (risk_score_of FraudAutomationDetection),
                   dict_set ''automation'' (dt_evidence automation) evidence)
             else (detected_patterns, risk_score, evidence));
          collaboration_fraud = detect_collaborative_cheating pd gc;
          (detected_patterns, risk_score, evidence) =
            (if dt_detected collaboration_fraud
             then (detected_patterns @ [FraudCollaborativeCheating],
                   max risk_score (risk_score_of FraudCollaborativeCheating),
                   dict_set ''collaboration'' (dt_evidence collaboration_fraud) evidence)
             else (detected_patterns, risk_score, evidence))
      in \<lparr>fr_detected_patterns = detected_patterns,
          fr_risk_score = risk_score,
          fr_evidence = evidence,
          fr_recommendations = generate_fraud_recommendations detected_patterns,
          fr_confidence = calculate_fraud_confidence evidence\<rparr>)"

section \<open>Sample inputs\<close>

definition failing_model :: anomaly_model where
  \<comment> \<open>a model whose scoring call raises, as an isolation forest that was never fitted does\<close>
  "failing_model = \<lparr>decision_function = (\<lambda>_. Inl NotFittedError), predict = (\<lambda>_. Inr 1)\<rparr>"

definition default_ad_player :: ad_player where
  \<comment> \<open>the empty dictionary \<open>{}\<close>\<close>
  "default_ad_player =
     \<lparr>ad_avg_solving_time = None, ad_time_variance = None, ad_session_duration_avg = None,
      ad_success_rate = None, ad_streak_consistency = None, ad_failure_recovery_time = None,
      ad_movement_efficiency = None, ad_location_accuracy_avg = None,
      ad_unusual_movements = None, ad_hint_usage_rate = None, ad_retry_frequency = None,
      ad_exploration_thoroughness = None, ad_device_consistency = None,
      ad_connection_stability = None\<rparr>"

definition day :: int where
  "day = 86400000000"

definition history_of :: "real \<Rightarrow> trust_history" where
  \<comment> \<open>a history with one entry, for the player \<open>p\<close>, written at time 0\<close>
  "history_of prior = [''p'' \<mapsto> \<lparr>he_timestamp = 0, he_score = prior\<rparr>]"

definition empty_pa_state :: pa_state where
  \<comment> \<open>the analyzer right after construction\<close>
  "empty_pa_state = \<lparr>player_patterns = (\<lambda>_ _. []), global_patterns = (\<lambda>_. [])\<rparr>"

definition empty_pa_context :: pa_context where
  "empty_pa_context =
     \<lparr>cx_similar_devices = None, cx_accounts_per_ip = None, cx_similar_players = None,
      cx_coordinated_actions = None\<rparr>"

definition fast_player :: "real list \<Rightarrow> pa_player" where
  \<comment> \<open>a player with the given solving times, success rate 1.0 and movement efficiency 0.99\<close>
  "fast_player ts =
     \<lparr>pa_player_id = None, pa_solving_times = Some ts, pa_success_rate = Some 1,
      pa_location_data = None, pa_device_fingerprint = None, pa_ip_address = None,
      pa_interaction_patterns = None, pa_movement_efficiency = Some 0.99,
      pa_social_connections = None, pa_communication_patterns = None\<rparr>"

definition score_at :: "pattern \<Rightarrow> pa_player \<Rightarrow> pa_context \<Rightarrow> real" where
  \<comment> \<open>the score that \<open>_analyze_single_pattern\<close> returns for a pattern\<close>
  "score_at p pd cx = fst (analyze_single_pattern p pd cx)"

definition fin_op :: "(real \<Rightarrow> real \<Rightarrow> real) \<Rightarrow> pynum \<Rightarrow> pynum \<Rightarrow> exn + pynum" where
  \<comment> \<open>an exact operation on finite numbers; any other operand gives NaN\<close>
  "fin_op f a b = (case (a, b) of (Fin x, Fin y) \<Rightarrow> Inr (Fin (f x y)) | _ \<Rightarrow> Inr NaN)"

fun fin_values :: "pynum list \<Rightarrow> real list option" where
  "fin_values [] = Some []"
| "fin_values (Fin x # rest) = map_option ((#) x) (fin_values rest)"
| "fin_values (_ # rest) = None"

definition fin_fold :: "(real list \<Rightarrow> real) \<Rightarrow> pynum list \<Rightarrow> exn + pynum" where
  "fin_fold f xs = (case fin_values xs of Some vs \<Rightarrow> Inr (Fin (f vs)) | None \<Rightarrow> Inr NaN)"

definition exact_arith :: arith where
  \<comment> \<open>the arithmetic without rounding: a zero divisor raises, nothing else does\<close>
  "exact_arith =
     \<lparr>a_add = fin_op (+), a_sub = fin_op (-), a_mul = fin_op (*),
      a_div = (\<lambda>a b. if b = Fin 0 then Inl ZeroDivisionError else fin_op (/) a b),
      a_pow = (\<lambda>a n. case a of Fin x \<Rightarrow> Inr (Fin (power_int x n)) | _ \<Rightarrow> Inr NaN),
      a_mean = fin_fold np_mean, a_std = fin_fold np_std, a_var = fin_fold np_var\<rparr>"

definition overflowing_arith :: arith where
  \<comment> \<open>an arithmetic whose division raises OverflowError, as the division of an \<open>int\<close>
     too large for a float does\<close>
  "overflowing_arith = exact_arith\<lparr>a_div := (\<lambda>a b. Inl OverflowError)\<rparr>"

definition default_ts_player :: ts_player where
  \<comment> \<open>the empty dictionary \<open>{}\<close>\<close>
  "default_ts_player =
     \<lparr>ts_player_id = None, ts_solving_times = None, ts_success_pattern = None,
      ts_movement_consistency = None, ts_success_rate = None, ts_account_age_days = None,
      ts_achievements = None, ts_total_play_time = None, ts_collaboration_score = None,
      ts_communication_quality = None, ts_reports_received = None,
      ts_positive_feedback = None, ts_device_consistency = None,
      ts_connection_stability = None, ts_location_consistency = None,
      ts_usual_playing_hours = None, ts_session_length_consistency = None,
      ts_play_frequency_consistency = None\<rparr>"

definition default_ts_results :: ts_verification_results where
  "default_ts_results = \<lparr>vr_location = None\<rparr>"

definition fl_history :: "trust_history \<Rightarrow> fl_trust_history" where
  \<comment> \<open>a history of real scores as a history of numbers\<close>
  "fl_history h =
     (\<lambda>pid. map_option (\<lambda>e. \<lparr>fe_timestamp = he_timestamp e, fe_score = Fin (he_score e)\<rparr>)
               (h pid))"

definition empty_location_data :: location_data where
  \<comment> \<open>the empty dictionary \<open>{}\<close>\<close>
  "empty_location_data =
     \<lparr>ld_gps = None, ld_wifi = None, ld_cell = None, ld_bluetooth = None, ld_ip = None\<rparr>"



definition empty_fd_player :: fd_player where
  \<comment> \<open>the empty dictionary \<open>{}\<close>\<close>
  "empty_fd_player =
     \<lparr>fd_player_id = None, fd_location_data = None, fd_device_fingerprint = None,
      fd_ip_address = None, fd_solving_times = None, fd_success_rate = None,
      fd_movement_efficiency = None, fd_social_connections = None,
      fd_communication_frequency = None, fd_recent_solve_times = None\<rparr>"

definition mock_player :: fd_player where
  \<comment> \<open>a player whose location data reports a mock location provider, and nothing else\<close>
  "mock_player =
     empty_fd_player\<lparr>fd_location_data :=
       Some (empty_fd_location_data\<lparr>fd_is_mock_provider := Some True\<rparr>)\<rparr>"

definition empty_fd_context :: fd_context where
  "empty_fd_context =
     \<lparr>gc_similar_players = None, gc_players_per_ip = None, gc_coordinated_movements = None,
      gc_similar_solutions = None\<rparr>"

section \<open>Notions used to state the properties\<close>

definition decimal_places :: "coordinate \<Rightarrow> nat" where
  \<comment> \<open>the number of characters that follow the decimal point in the printed form of a
     coordinate (up to a further point, if any); 0 when there is no point\<close>
  "decimal_places c =
     length (takeWhile (\<lambda>x. x \<noteq> CHR ''.'')
               (tl (dropWhile (\<lambda>x. x \<noteq> CHR ''.'') (py_str c))))"

definition consecutive :: "'a list \<Rightarrow> ('a \<times> 'a) list" where
  \<comment> \<open>the pairs \<open>(xs[i-1], xs[i])\<close> for \<open>i\<close> from 1\<close>
  "consecutive xs = zip xs (tl xs)"

definition time_delta :: "location \<times> location \<Rightarrow> real" where
  "time_delta pq = getd (timestamp (snd pq)) 0 - getd (timestamp (fst pq)) 0"

definition haversine :: "location \<Rightarrow> location \<Rightarrow> real" where
  \<comment> \<open>the value of the haversine formula, in metres\<close>
  "haversine p q = 6371000 * (2 * arcsin (sqrt (haversine_a p q)))"

definition fd_too_fast :: "location \<times> location \<Rightarrow> bool" where
  \<comment> \<open>positive time delta and more than 500 km/h by the simplified distance\<close>
  "fd_too_fast pq =
     (time_delta pq > 0
      \<and> (fd_calculate_distance (fst pq) (snd pq) / 1000) / (time_delta pq / 3600) > 500)"

definition lvs_too_fast :: "location \<times> location \<Rightarrow> bool" where
  \<comment> \<open>positive time delta and more than 50 m/s by the haversine distance\<close>
  "lvs_too_fast pq =
     (time_delta pq > 0 \<and> haversine (fst pq) (snd pq) / time_delta pq > 50)"

definition west :: "real \<Rightarrow> location" where
  \<comment> \<open>the point of latitude 0 on the antimeridian, written with longitude -180\<close>
  "west t = \<lparr>lat = 0, lon = - 180, timestamp = Some t\<rparr>"

definition east :: "real \<Rightarrow> location" where
  \<comment> \<open>the same point, written with longitude 180\<close>
  "east t = \<lparr>lat = 0, lon = 180, timestamp = Some t\<rparr>"

definition history_at :: "location list \<Rightarrow> fd_location_data" where
  "history_at h =
     \<lparr>fd_is_mock_provider = None, fd_gps_accuracy = None, fd_location_history = Some h,
      fd_locations = None\<rparr>"

section \<open>The haversine distance never raises\<close>

lemma sin_half_squared: "(sin ((x::real) / 2))\<^sup>2 = (1 - cos x) / 2"
proof -
  have "cos x = cos (2 * (x / 2))" by simp
  also have "\<dots> = 1 - 2 * (sin (x / 2))\<^sup>2" by (rule cos_double_sin)
  finally show ?thesis by simp
qed

lemma cos_half_squared: "(cos ((x::real) / 2))\<^sup>2 = (1 + cos x) / 2"
proof -
  have "cos x = cos (2 * (x / 2))" by simp
  also have "\<dots> = 2 * (cos (x / 2))\<^sup>2 - 1" by (rule cos_double_cos)
  finally show ?thesis by simp
qed

lemma haversine_mix:
  fixes p q d :: real
  shows "(sin ((q - p) / 2))\<^sup>2 + cos p * cos q * (sin (d / 2))\<^sup>2 =
         (1 - (sin (d / 2))\<^sup>2) * (sin ((q - p) / 2))\<^sup>2 +
         (sin (d / 2))\<^sup>2 * (cos ((p + q) / 2))\<^sup>2"
proof -
  have "(sin ((q - p) / 2))\<^sup>2 + cos p * cos q = (cos ((p + q) / 2))\<^sup>2"
    by (simp add: sin_half_squared cos_half_squared cos_add cos_diff field_simps)
  then have e: "cos p * cos q = (cos ((p + q) / 2))\<^sup>2 - (sin ((q - p) / 2))\<^sup>2"
    by simp
  show ?thesis unfolding e by (simp add: algebra_simps)
qed

lemma convex_unit:
  fixes s u v :: real
  assumes "0 \<le> s" "s \<le> 1" "0 \<le> u" "u \<le> 1" "0 \<le> v" "v \<le> 1"
  shows "0 \<le> (1 - s) * u + s * v" and "(1 - s) * u + s * v \<le> 1"
proof -
  show "0 \<le> (1 - s) * u + s * v" using assms by simp
  have "(1 - s) * u \<le> (1 - s) * 1" using assms by (intro mult_left_mono) auto
  moreover have "s * v \<le> s * 1" using assms by (intro mult_left_mono) auto
  ultimately show "(1 - s) * u + s * v \<le> 1" by simp
qed

lemma sin_sq_unit: "0 \<le> (sin (x::real))\<^sup>2" "(sin (x::real))\<^sup>2 \<le> 1"
  by (simp_all add: abs_square_le_1)

lemma cos_sq_unit: "0 \<le> (cos (x::real))\<^sup>2" "(cos (x::real))\<^sup>2 \<le> 1"
  by (simp_all add: abs_square_le_1)

lemma haversine_a_bounds: "0 \<le> haversine_a p q" "haversine_a p q \<le> 1"
  unfolding haversine_a_def Let_def haversine_mix
  by (rule convex_unit; rule sin_sq_unit cos_sq_unit)+

lemma lvs_calculate_distance_value:
  "lvs_calculate_distance p q = Inr (6371000 * (2 * arcsin (sqrt (haversine_a p q))))"
proof -
  have a0: "\<not> haversine_a p q < 0" using haversine_a_bounds(1) [of p q] by simp
  have "sqrt (haversine_a p q) \<le> 1"
    using haversine_a_bounds(2) [of p q] by (simp add: real_sqrt_le_1_iff)
  moreover have "\<not> sqrt (haversine_a p q) < - 1"
    using haversine_a_bounds(1) [of p q] by (simp add: not_less order_trans [of "- 1" 0])
  ultimately show ?thesis
    using a0 by (simp add: lvs_calculate_distance_def py_sqrt_def py_asin_def Let_def)
qed

section \<open>Identical and antipodal points\<close>

text \<open>
  Claim C8. The haversine distance of a point to itself is 0, and the distance of a point
  to its antipode (latitude negated, longitude shifted by 180 degrees) is pi * 6371000
  metres, half the circumference of the Earth. Over the reals the value is exact.
\<close>

theorem haversine_identical_and_antipodal:
  "lvs_calculate_distance p p = Inr 0 \<and>
   lvs_calculate_distance \<lparr>lat = a, lon = b, timestamp = t\<rparr>
                          \<lparr>lat = - a, lon = b + 180, timestamp = t'\<rparr> = Inr (pi * 6371000)"
proof
  have "haversine_a p p = 0" by (simp add: haversine_a_def)
  then show "lvs_calculate_distance p p = Inr 0"
    by (simp add: lvs_calculate_distance_value)
next
  let ?p = "\<lparr>lat = a, lon = b, timestamp = t\<rparr>"
  let ?q = "\<lparr>lat = - a, lon = b + 180, timestamp = t'\<rparr>"
  have dl: "radians (b + 180) - radians b = pi" by (simp add: radians_def field_simps)
  have dn: "(radians (- a) - radians a) / 2 = - radians a" by (simp add: radians_def)
  have ca: "cos (radians (- a)) = cos (radians a)" by (simp add: radians_def)
  have "haversine_a ?p ?q = (sin (radians a))\<^sup>2 + (cos (radians a))\<^sup>2"
    by (simp add: haversine_a_def Let_def dl dn ca power2_eq_square)
  then have "haversine_a ?p ?q = 1" by simp
  then show "lvs_calculate_distance ?p ?q = Inr (pi * 6371000)"
    by (simp add: lvs_calculate_distance_value)
qed

section \<open>AnomalyDetector: a failing model\<close>

lemma features_nonempty: "length (extract_anomaly_features pd hist) = 14"
  by (simp add: extract_anomaly_features_def)

lemma detect_behavior_anomalies_returns: "\<exists>r. detect_behavior_anomalies m pd hist = Inr r"
  by (auto simp: detect_behavior_anomalies_def Let_def split: sum.splits)

text \<open>
  Claim C9. Whenever the model step of \<open>detect_behavior_anomalies\<close> raises (the call of
  \<open>decision_function\<close> or the call of \<open>predict\<close>), the function returns the fixed neutral
  result: anomaly score 0.5, not an anomaly, confidence 0.0. The result is a returned
  value (\<open>Inr\<close>), so the failure does not reach the caller; the model is a function without
  recursion, so the step is not tried again.
\<close>

theorem model_failure_gives_neutral_result:
  assumes "decision_function m (extract_anomaly_features pd hist) = Inl e
         \<or> predict m (extract_anomaly_features pd hist) = Inl e"
  shows "detect_behavior_anomalies m pd hist =
           Inr \<lparr>ar_anomaly_score = 0.5, ar_is_anomaly = False, ar_confidence = 0,
                ar_anomaly_type = ''detection_failed'', ar_risk_level = None\<rparr>"
proof -
  have "\<exists>e'. scoring_step m (extract_anomaly_features pd hist) pd = Inl e'"
    using assms by (auto simp: scoring_step_def split: sum.splits)
  moreover have "length (extract_anomaly_features pd hist) \<noteq> 0"
    by (simp add: features_nonempty)
  ultimately show ?thesis
    by (auto simp: detect_behavior_anomalies_def Let_def)
qed

theorem model_failure_gives_neutral_result_witness:
  "(decision_function failing_model (extract_anomaly_features default_ad_player [])
      = Inl NotFittedError
    \<or> predict failing_model (extract_anomaly_features default_ad_player [])
      = Inl NotFittedError)
   \<and> detect_behavior_anomalies failing_model default_ad_player [] =
         Inr \<lparr>ar_anomaly_score = 0.5, ar_is_anomaly = False, ar_confidence = 0,
              ar_anomaly_type = ''detection_failed'', ar_risk_level = None\<rparr>"
proof -
  have h: "decision_function failing_model (extract_anomaly_features default_ad_player [])
             = Inl NotFittedError
           \<or> predict failing_model (extract_anomaly_features default_ad_player [])
             = Inl NotFittedError"
    by (simp add: failing_model_def)
  show ?thesis using h model_failure_gives_neutral_result [OF h] by simp
qed

section \<open>TrustScorer: the decay step\<close>

text \<open>
  Claim C1, as the code has it. For a player with an entry in the trust history, a score
  computed N whole days (N \<ge> 0) after that entry is the newly computed score multiplied
  by 0.95^N, and this product is stored with the new time. The score stored before is not
  read, and nothing is blended.
\<close>

theorem decay_multiplies_current_score:
  assumes "pid \<noteq> []" and "trust_history pid = Some entry"
    and "timedelta_days now (he_timestamp entry) = int N"
  shows "apply_trust_decay now trust_history (Some pid) current_score =
           (current_score * 0.95 ^ N,
            trust_history(pid \<mapsto> \<lparr>he_timestamp = now, he_score = current_score * 0.95 ^ N\<rparr>))"
  using assms by (simp add: apply_trust_decay_def Let_def decay_factor_def)

theorem decay_multiplies_current_score_witness:
  "''p'' \<noteq> []
   \<and> history_of 0.2 ''p'' = Some \<lparr>he_timestamp = 0, he_score = 0.2\<rparr>
   \<and> timedelta_days (2 * day) (he_timestamp \<lparr>he_timestamp = 0, he_score = 0.2\<rparr>) = int 2
   \<and> apply_trust_decay (2 * day) (history_of 0.2) (Some ''p'') 0.8 =
         (0.8 * 0.95 ^ 2,
          (history_of 0.2)(''p'' \<mapsto> \<lparr>he_timestamp = 2 * day, he_score = 0.8 * 0.95 ^ 2\<rparr>))"
proof -
  have a: "''p'' \<noteq> []" by simp
  have b: "history_of 0.2 ''p'' = Some \<lparr>he_timestamp = 0, he_score = 0.2\<rparr>"
    by (simp add: history_of_def)
  have c: "timedelta_days (2 * day) (he_timestamp \<lparr>he_timestamp = 0, he_score = 0.2\<rparr>) = int 2"
    by (simp add: timedelta_days_def microseconds_per_day_def day_def)
  show ?thesis
    using a b c
      decay_multiplies_current_score
        [where pid = "''p''" and trust_history = "history_of 0.2"
           and entry = "\<lparr>he_timestamp = 0, he_score = 0.2\<rparr>" and now = "2 * day" and N = 2
           and current_score = "0.8"]
    by simp
qed

text \<open>
  Claim C1 as stated fails. One day after an entry with the stored score 0.2, the new
  score 0.8 gives 0.8 * 0.95 = 0.76; the stored score times 0.95 is 0.19. With the stored
  score 0.9 instead the result is the same 0.76: the stored score has no part in it.
\<close>

theorem decay_ignores_prior_score:
  "fst (apply_trust_decay day (history_of 0.2) (Some ''p'') 0.8) = 0.76
   \<and> fst (apply_trust_decay day (history_of 0.9) (Some ''p'') 0.8) = 0.76
   \<and> (0.2::real) * 0.95 ^ 1 = 0.19
   \<and> (0.9::real) * 0.95 ^ 1 = 0.855"
  by (simp add: apply_trust_decay_def Let_def decay_factor_def timedelta_days_def
                microseconds_per_day_def day_def history_of_def)

section \<open>FraudDetector: the risk score\<close>








text \<open>
  For a player whose location data reports a mock provider and nothing else, location
  spoofing is the one detected pattern and the risk score is 0.8.
\<close>

lemma mock_provider_example:
  "fr_detected_patterns (detect_fraud_patterns Map.empty mock_player empty_fd_context)
     = [FraudLocationSpoofing]
   \<and> fr_risk_score (detect_fraud_patterns Map.empty mock_player empty_fd_context) = 0.8"
  by (simp add: detect_fraud_patterns_def detect_location_fraud_def
        detect_multiple_accounts_def detect_automation_def detect_collaborative_cheating_def
        check_impossible_movements_def check_coordinate_rounding_def
        check_information_sharing_def check_rapid_succession_solves_def opt_in_def
        mock_player_def empty_fd_player_def empty_fd_location_data_def empty_fd_context_def
        getd_def Let_def)

section \<open>LocationVerificationService: the overall confidence\<close>

text \<open>
  Claim C3. \<open>comprehensive_location_verification\<close> runs the five methods on the location
  data and stores what each returns (for a method that raises, the failure entry, whose
  confidence is 0.0). The overall confidence is the sum of the five confidences weighted
  by gps 0.4, wifi 0.25, cell 0.2, bluetooth 0.1, ip 0.05, and \<open>verified\<close> is true exactly
  when that sum is at least 0.7.
\<close>

theorem overall_confidence_is_weighted_sum:
  fixes now ld
  defines "r \<equiv> comprehensive_location_verification now ld"
  defines "conf \<equiv> \<lambda>m. mr_confidence (the (v_verification_methods r m))"
  defines "ip_result \<equiv>
    (case verify_ip_geolocation ld of Inr res \<Rightarrow> res | Inl e \<Rightarrow> failed_result e)"
  shows "v_verification_methods r Gps = Some (verify_gps_location ld)
   \<and> v_verification_methods r Wifi = Some (verify_wifi_fingerprint ld)
   \<and> v_verification_methods r Cell = Some (verify_cell_towers ld)
   \<and> v_verification_methods r Bluetooth = Some (verify_bluetooth_beacons ld)
   \<and> v_verification_methods r Ip = Some ip_result
   \<and> v_overall_confidence r =
         mr_confidence (verify_gps_location ld) * 0.4
         + mr_confidence (verify_wifi_fingerprint ld) * 0.25
         + mr_confidence (verify_cell_towers ld) * 0.2
         + mr_confidence (verify_bluetooth_beacons ld) * 0.1
         + mr_confidence ip_result * 0.05
   \<and> dom (v_verification_methods r) = {Gps, Wifi, Cell, Bluetooth, Ip}
   \<and> v_overall_confidence r =
         conf Gps * 0.4 + conf Wifi * 0.25 + conf Cell * 0.2 + conf Bluetooth * 0.1
         + conf Ip * 0.05
   \<and> v_verified r = (v_overall_confidence r \<ge> 0.7)"
  unfolding r_def conf_def ip_result_def
  by (cases "verify_ip_geolocation ld")
     (simp_all add: comprehensive_location_verification_def verification_methods_def
                    Let_def failed_result_def insert_commute)

section \<open>PatternAnalyzer: scores, detection and overall risk\<close>

lemma dict_set_fresh: "k \<notin> fst ` set xs \<Longrightarrow> dict_set k v xs = xs @ [(k, v)]"
  by (induction xs) auto

lemma patterns_loop_detected:
  "lv_detected_patterns (patterns_loop now pd cx ps v) =
     lv_detected_patterns v @ filter (\<lambda>p. threshold p \<le> score_at p pd cx) ps"
  by (induction ps arbitrary: v) (auto simp: Let_def score_at_def split: prod.splits)

lemma patterns_loop_scores:
  "distinct ps \<Longrightarrow> set ps \<inter> fst ` set (lv_pattern_scores v) = {} \<Longrightarrow>
   lv_pattern_scores (patterns_loop now pd cx ps v) =
     lv_pattern_scores v @ map (\<lambda>p. (p, score_at p pd cx)) ps"
proof (induction ps arbitrary: v)
  case Nil
  then show ?case by simp
next
  case (Cons p ps)
  have fresh: "p \<notin> fst ` set (lv_pattern_scores v)" using Cons.prems by auto
  show ?case
    using Cons.prems
    by (simp add: Let_def score_at_def dict_set_fresh [OF fresh] Cons.IH split: prod.splits)
qed

lemma detected_patterns_eq:
  "an_detected_patterns (fst (analyze_behavior_patterns now st pd cx)) =
     filter (\<lambda>p. threshold p \<le> score_at p pd cx) cheating_patterns"
  by (simp add: analyze_behavior_patterns_def Let_def patterns_loop_detected)

lemma pattern_scores_eq:
  "an_pattern_scores (fst (analyze_behavior_patterns now st pd cx)) =
     map (\<lambda>p. (p, score_at p pd cx)) cheating_patterns"
proof -
  have "distinct cheating_patterns" by (simp add: cheating_patterns_def)
  then show ?thesis
    by (simp add: analyze_behavior_patterns_def Let_def patterns_loop_scores)
qed

lemma overall_risk_eq:
  "an_overall_risk_score (fst (analyze_behavior_patterns now st pd cx)) =
     calculate_overall_risk (map (\<lambda>p. (p, score_at p pd cx)) cheating_patterns)"
proof -
  have "distinct cheating_patterns" by (simp add: cheating_patterns_def)
  then show ?thesis
    by (simp add: analyze_behavior_patterns_def Let_def patterns_loop_scores)
qed

lemma pattern_cases: "p \<in> set cheating_patterns"
  by (cases p) (simp_all add: cheating_patterns_def)

text \<open>
  Claim C4. The stored pattern scores are the scores that the five analyzers return for
  the player data and the context, in catalog order. The overall risk score is the sum of
  score times pattern weight divided by the sum of the weights, and a pattern is in
  \<open>detected_patterns\<close> exactly when its score is at least its threshold.
\<close>

theorem overall_risk_is_weighted_average:
  fixes now st pd cx
  defines "r \<equiv> fst (analyze_behavior_patterns now st pd cx)"
  defines "score \<equiv> \<lambda>p. the (map_of (an_pattern_scores r) p)"
  shows "an_pattern_scores r =
       [(SpeedHacking, fst (analyze_speed_hacking pd cx)),
        (LocationSpoofing, fst (analyze_location_spoofing pd cx)),
        (MultipleAccounts, fst (analyze_multiple_accounts pd cx)),
        (AutomationDetection, fst (analyze_automation pd cx)),
        (CollaborativeCheating, fst (analyze_collaborative_cheating pd cx))]
   \<and> an_overall_risk_score r =
       (fst (analyze_speed_hacking pd cx) * 0.9
        + fst (analyze_location_spoofing pd cx) * 0.8
        + fst (analyze_multiple_accounts pd cx) * 0.7
        + fst (analyze_automation pd cx) * 0.85
        + fst (analyze_collaborative_cheating pd cx) * 0.6)
       / (0.9 + 0.8 + 0.7 + 0.85 + 0.6)
   \<and> an_detected_patterns r =
       filter (\<lambda>p. fst (analyze_single_pattern p pd cx) \<ge> threshold p) cheating_patterns
   \<and> (\<forall>p. (p \<in> set (an_detected_patterns r)) =
            (fst (analyze_single_pattern p pd cx) \<ge> threshold p))
   \<and> map fst (an_pattern_scores r) = cheating_patterns
   \<and> an_overall_risk_score r =
       (score SpeedHacking * 0.9 + score LocationSpoofing * 0.8 + score MultipleAccounts * 0.7
        + score AutomationDetection * 0.85 + score CollaborativeCheating * 0.6)
       / (0.9 + 0.8 + 0.7 + 0.85 + 0.6)
   \<and> (\<forall>p. (p \<in> set (an_detected_patterns r)) = (score p \<ge> threshold p))"
proof -
  have s: "score p = score_at p pd cx" for p
    unfolding score_def r_def pattern_scores_eq
    by (cases p) (simp_all add: cheating_patterns_def)
  have 0: "an_pattern_scores r =
       [(SpeedHacking, fst (analyze_speed_hacking pd cx)),
        (LocationSpoofing, fst (analyze_location_spoofing pd cx)),
        (MultipleAccounts, fst (analyze_multiple_accounts pd cx)),
        (AutomationDetection, fst (analyze_automation pd cx)),
        (CollaborativeCheating, fst (analyze_collaborative_cheating pd cx))]"
    unfolding r_def pattern_scores_eq by (simp add: cheating_patterns_def score_at_def)
  have 1: "map fst (an_pattern_scores r) = cheating_patterns"
    unfolding r_def pattern_scores_eq by (simp add: comp_def)
  have 2: "an_overall_risk_score r =
       (score SpeedHacking * 0.9 + score LocationSpoofing * 0.8 + score MultipleAccounts * 0.7
        + score AutomationDetection * 0.85 + score CollaborativeCheating * 0.6)
       / (0.9 + 0.8 + 0.7 + 0.85 + 0.6)"
    unfolding s unfolding r_def overall_risk_eq
    by (simp add: cheating_patterns_def calculate_overall_risk_def)
  have 3: "(p \<in> set (an_detected_patterns r)) = (score p \<ge> threshold p)" for p
    unfolding s unfolding r_def detected_patterns_eq
    using pattern_cases [of p] by simp
  have 4: "an_detected_patterns r =
       filter (\<lambda>p. fst (analyze_single_pattern p pd cx) \<ge> threshold p) cheating_patterns"
    unfolding r_def detected_patterns_eq by (simp add: score_at_def)
  have 5: "an_overall_risk_score r =
       (fst (analyze_speed_hacking pd cx) * 0.9
        + fst (analyze_location_spoofing pd cx) * 0.8
        + fst (analyze_multiple_accounts pd cx) * 0.7
        + fst (analyze_automation pd cx) * 0.85
        + fst (analyze_collaborative_cheating pd cx) * 0.6)
       / (0.9 + 0.8 + 0.7 + 0.85 + 0.6)"
    using 2 unfolding s by (simp add: score_at_def)
  have 6: "(p \<in> set (an_detected_patterns r)) =
            (fst (analyze_single_pattern p pd cx) \<ge> threshold p)" for p
    using 3 [of p] unfolding s by (simp add: score_at_def)
  from 0 1 2 3 4 5 6 show ?thesis by blast
qed

lemma speed_hacking_score:
  assumes "pa_solving_times pd = Some ts" "ts \<noteq> []" "np_mean ts < 20"
  shows "score_at SpeedHacking pd cx \<ge> 0.8"
  using assms by (simp add: score_at_def analyze_speed_hacking_def Let_def getd_def)

lemma automation_score:
  assumes "pa_solving_times pd = Some ts" "pa_movement_efficiency pd = Some eff" "eff > 0.98"
  shows "(score_at AutomationDetection pd cx \<ge> 0.75) =
         ((length ts > 5 \<and> calculate_timing_consistency ts > 0.9)
          \<or> has_mechanical_patterns (getd (pa_interaction_patterns pd)
                \<lparr>ia_click_intervals = None, ia_movement_patterns = None\<rparr>))"
  using assms by (simp add: score_at_def analyze_automation_def Let_def getd_def)

text \<open>
  Claim C5, as the code has it. A player with success rate 1.0, a non-empty list of
  solving times of mean below 20 seconds and movement efficiency above 0.98 is flagged
  for speed hacking. The player is flagged for automation exactly when, in addition,
  there are more than 5 solving times of timing consistency above 0.9, or the interaction
  patterns are mechanical: the efficiency alone scores 0.6, below the threshold 0.75.
\<close>

theorem fast_perfect_player_flags:
  assumes "pa_success_rate pd = Some 1"
    and "pa_solving_times pd = Some ts" and "ts \<noteq> []" and "np_mean ts < 20"
    and "pa_movement_efficiency pd = Some eff" and "eff > 0.98"
  shows "SpeedHacking \<in> set (an_detected_patterns (fst (analyze_behavior_patterns now st pd cx)))
   \<and> (AutomationDetection
         \<in> set (an_detected_patterns (fst (analyze_behavior_patterns now st pd cx))))
     = ((length ts > 5 \<and> calculate_timing_consistency ts > 0.9)
        \<or> has_mechanical_patterns (getd (pa_interaction_patterns pd)
              \<lparr>ia_click_intervals = None, ia_movement_patterns = None\<rparr>))"
proof -
  have "threshold SpeedHacking \<le> score_at SpeedHacking pd cx"
    using speed_hacking_score [OF assms(2,3,4)] by simp
  moreover have "(threshold AutomationDetection \<le> score_at AutomationDetection pd cx) =
     ((length ts > 5 \<and> calculate_timing_consistency ts > 0.9)
        \<or> has_mechanical_patterns (getd (pa_interaction_patterns pd)
              \<lparr>ia_click_intervals = None, ia_movement_patterns = None\<rparr>))"
    using automation_score [OF assms(2,5,6)] by simp
  ultimately show ?thesis
    unfolding detected_patterns_eq by (simp add: cheating_patterns_def)
qed

lemma np_mean_six: "np_mean [10, 10, 10, 10, 10, 10] = 10"
  by (simp add: np_mean_def)

lemma timing_six: "calculate_timing_consistency [10, 10, 10, 10, 10, 10] = 1"
  by (simp add: calculate_timing_consistency_def np_std_def np_var_def np_mean_def)

theorem fast_perfect_player_flags_witness:
  "pa_success_rate (fast_player [10, 10, 10, 10, 10, 10]) = Some 1
   \<and> pa_solving_times (fast_player [10, 10, 10, 10, 10, 10]) = Some [10, 10, 10, 10, 10, 10]
   \<and> [10, 10, 10, 10, 10, 10::real] \<noteq> []
   \<and> np_mean [10, 10, 10, 10, 10, 10] < 20
   \<and> pa_movement_efficiency (fast_player [10, 10, 10, 10, 10, 10]) = Some 0.99
   \<and> (0.99::real) > 0.98
   \<and> SpeedHacking \<in> set (an_detected_patterns (fst (analyze_behavior_patterns 0 empty_pa_state
          (fast_player [10, 10, 10, 10, 10, 10]) empty_pa_context)))
   \<and> AutomationDetection \<in> set (an_detected_patterns (fst (analyze_behavior_patterns 0
          empty_pa_state (fast_player [10, 10, 10, 10, 10, 10]) empty_pa_context)))"
proof -
  let ?ts = "[10, 10, 10, 10, 10, 10::real]"
  have a: "pa_success_rate (fast_player ?ts) = Some 1" by (simp add: fast_player_def)
  have b: "pa_solving_times (fast_player ?ts) = Some ?ts" by (simp add: fast_player_def)
  have c: "?ts \<noteq> []" by simp
  have d: "np_mean ?ts < 20" by (simp add: np_mean_six)
  have e: "pa_movement_efficiency (fast_player ?ts) = Some 0.99" by (simp add: fast_player_def)
  have f: "(0.99::real) > 0.98" by simp
  show ?thesis
    using a b c d e f
      fast_perfect_player_flags [OF a b c d e f, of 0 empty_pa_state empty_pa_context]
    by (simp add: timing_six)
qed

text \<open>
  Claim C5 as stated fails: the player with the single solving time 10, success rate 1.0
  and movement efficiency 0.99 has automation score 0.6 and is not flagged for automation.
\<close>

theorem fast_perfect_player_not_flagged_for_automation:
  "pa_success_rate (fast_player [10]) = Some 1
   \<and> pa_solving_times (fast_player [10]) = Some [10]
   \<and> np_mean [10] < 20
   \<and> pa_movement_efficiency (fast_player [10]) = Some 0.99 \<and> (0.99::real) > 0.98
   \<and> AutomationDetection \<notin> set (an_detected_patterns (fst (analyze_behavior_patterns 0
          empty_pa_state (fast_player [10]) empty_pa_context)))
   \<and> map_of (an_pattern_scores (fst (analyze_behavior_patterns 0
          empty_pa_state (fast_player [10]) empty_pa_context))) AutomationDetection = Some 0.6"
  unfolding detected_patterns_eq pattern_scores_eq
  by (simp add: fast_player_def np_mean_def cheating_patterns_def score_at_def
                analyze_automation_def analyze_speed_hacking_def Let_def getd_def
                has_mechanical_patterns_def)

section \<open>Scores in the unit interval\<close>

lemma gps_confidence_bounds:
  "0 \<le> mr_confidence (verify_gps_location ld)" "mr_confidence (verify_gps_location ld) \<le> 1"
  by (simp_all add: verify_gps_location_def Let_def)

lemma wifi_confidence_bounds:
  "0 \<le> mr_confidence (verify_wifi_fingerprint ld)"
  "mr_confidence (verify_wifi_fingerprint ld) \<le> 1"
  by (simp_all add: verify_wifi_fingerprint_def Let_def)

lemma tower_signal_loop_mono: "c \<le> tower_signal_loop towers c"
proof (induction towers arbitrary: c)
  case Nil
  then show ?case by simp
next
  case (Cons t towers)
  have "c \<le> c + 0.1" "c \<le> c + 0.05" by simp_all
  then show ?case
    using Cons.IH [of "c + 0.1"] Cons.IH [of "c + 0.05"] Cons.IH [of c]
    by (auto simp: Let_def)
qed

lemma cell_confidence_bounds:
  "0 \<le> mr_confidence (verify_cell_towers ld)" "mr_confidence (verify_cell_towers ld) \<le> 1"
proof -
  have "0 \<le> tower_signal_loop ts (1/2)" "0 \<le> tower_signal_loop ts (3/10)" "0 \<le> tower_signal_loop ts (1/10)" for ts
    using tower_signal_loop_mono [of "1/2" ts] tower_signal_loop_mono [of "3/10" ts]
      tower_signal_loop_mono [of "1/10" ts] by simp_all
  then show "0 \<le> mr_confidence (verify_cell_towers ld)"
    by (simp add: verify_cell_towers_def Let_def add_nonneg_nonneg)
  show "mr_confidence (verify_cell_towers ld) \<le> 1"
    by (simp add: verify_cell_towers_def Let_def min_le_iff_disj)
qed

lemma bluetooth_confidence_bounds:
  "0 \<le> mr_confidence (verify_bluetooth_beacons ld)"
  "mr_confidence (verify_bluetooth_beacons ld) \<le> 1"
  by (simp_all add: verify_bluetooth_beacons_def Let_def)

lemma verify_ip_geolocation_returns:
  "\<exists>r. verify_ip_geolocation ld = Inr r \<and> 0 \<le> mr_confidence r \<and> mr_confidence r \<le> 1"
  by (simp add: verify_ip_geolocation_def Let_def lvs_calculate_distance_value)

lemma overall_confidence_eq:
  "v_overall_confidence (comprehensive_location_verification now ld) =
     mr_confidence (verify_gps_location ld) * 0.4
     + mr_confidence (verify_wifi_fingerprint ld) * 0.25
     + mr_confidence (verify_cell_towers ld) * 0.2
     + mr_confidence (verify_bluetooth_beacons ld) * 0.1
     + (case verify_ip_geolocation ld of Inr r \<Rightarrow> mr_confidence r * 0.05 | Inl e \<Rightarrow> 0)"
  by (cases "verify_ip_geolocation ld")
     (simp_all add: comprehensive_location_verification_def verification_methods_def Let_def)

lemma weighted_unit:
  fixes g w c b i :: real
  assumes "0 \<le> g" "g \<le> 1" "0 \<le> w" "w \<le> 1" "0 \<le> c" "c \<le> 1" "0 \<le> b" "b \<le> 1"
    "0 \<le> i" "i \<le> 1"
  shows "0 \<le> g * 0.4 + w * 0.25 + c * 0.2 + b * 0.1 + i * 0.05"
    and "g * 0.4 + w * 0.25 + c * 0.2 + b * 0.1 + i * 0.05 \<le> 1"
  using assms by simp_all

lemma overall_confidence_bounds:
  "0 \<le> v_overall_confidence (comprehensive_location_verification now ld)"
  "v_overall_confidence (comprehensive_location_verification now ld) \<le> 1"
proof -
  obtain r where r: "verify_ip_geolocation ld = Inr r" "0 \<le> mr_confidence r" "mr_confidence r \<le> 1"
    using verify_ip_geolocation_returns by blast
  show "0 \<le> v_overall_confidence (comprehensive_location_verification now ld)"
    unfolding overall_confidence_eq r(1)
    using weighted_unit(1) [OF gps_confidence_bounds wifi_confidence_bounds cell_confidence_bounds
        bluetooth_confidence_bounds r(2,3)] by simp
  show "v_overall_confidence (comprehensive_location_verification now ld) \<le> 1"
    unfolding overall_confidence_eq r(1)
    using weighted_unit(2) [OF gps_confidence_bounds wifi_confidence_bounds cell_confidence_bounds
        bluetooth_confidence_bounds r(2,3)] by simp
qed

lemma clamp_in_unit_interval:
  "\<exists>x. py_max (Fin 0) (py_min (Fin 1) t) = Fin x \<and> 0 \<le> x \<and> x \<le> 1"
  by (cases t) (auto simp: py_max_def py_min_def py_gt_def)

lemma trust_score_clamped:
  assumes "fst (calculate_trust_score ar now h pd vr) = Inr r"
  shows "\<exists>x. tr_trust_score r = Fin x \<and> 0 \<le> x \<and> x \<le> 1"
proof -
  from assms obtain t c where "tr_trust_score r = py_max (Fin 0) (py_min (Fin 1) t)"
    by (auto simp: calculate_trust_score_def and_then_def Let_def
             split: sum.splits prod.splits)
  then show ?thesis using clamp_in_unit_interval [of t] by simp
qed

text \<open>
  In exact arithmetic the empty player data and the empty verification results give the
  trust score 239/375; with a division that raises, the call raises and the history is
  unchanged; and the decay step of the trust score is the exact decay step.
\<close>

lemma default_components:
  "component_scores_of exact_arith default_ts_player default_ts_results =
     Inr [(BehaviorConsistency, Fin (7/10)), (LocationVerification, Fin (2/3)),
          (HistoricalPerformance, Fin (121/300)), (SocialBehavior, Fin (7/10)),
          (DeviceReputation, Fin (7/10)), (TemporalPatterns, Fin (22/30))]"
  by (simp add: component_scores_of_def calculate_behavior_consistency_def
        calculate_location_trust_def calculate_historical_performance_def
        calculate_social_behavior_def calculate_device_reputation_def
        calculate_temporal_consistency_def default_ts_player_def default_ts_results_def
        exact_arith_def and_then_def fin_op_def fin_fold_def np_mean_def getd_def Let_def
        py_min_def py_max_def py_gt_def)

lemma default_trust_score:
  "\<exists>r. calculate_trust_score exact_arith 0 Map.empty default_ts_player default_ts_results
         = (Inr r, Map.empty)
       \<and> tr_trust_score r = Fin (239/375)"
  unfolding calculate_trust_score_def default_components
  by (simp add: and_then_def trust_weights_def score_of_def exact_arith_def fin_op_def
        apply_trust_decay_fl_def default_ts_player_def calculate_confidence_def fin_fold_def
        np_var_def np_mean_def py_min_def py_max_def py_gt_def Let_def)

lemma overflow_propagates:
  "calculate_trust_score overflowing_arith now h default_ts_player default_ts_results
     = (Inl OverflowError, h)"
  by (simp add: calculate_trust_score_def component_scores_of_def
        calculate_behavior_consistency_def calculate_location_trust_def
        calculate_historical_performance_def default_ts_player_def default_ts_results_def
        overflowing_arith_def exact_arith_def and_then_def fin_op_def fin_fold_def np_mean_def
        getd_def Let_def py_min_def py_max_def py_gt_def)

lemma apply_trust_decay_fl_exact:
  "apply_trust_decay_fl exact_arith now (fl_history h) pid (Fin s) =
     (Inr (Fin (fst (apply_trust_decay now h pid s))),
      fl_history (snd (apply_trust_decay now h pid s)))"
  by (auto simp: apply_trust_decay_fl_def apply_trust_decay_def fl_history_def exact_arith_def
        and_then_def fin_op_def Let_def fun_eq_iff split: option.splits)

text \<open>
  The clamp at work: in exact arithmetic a movement consistency of 3 or more, however
  large, gives the trust score 1.
\<close>

lemma large_consistency_clamped:
  assumes "3 \<le> B"
  shows "\<exists>r. fst (calculate_trust_score exact_arith 0 Map.empty
                  (default_ts_player\<lparr>ts_movement_consistency := Some (Fin B)\<rparr>)
                  default_ts_results) = Inr r
             \<and> tr_trust_score r = Fin 1"
proof -
  let ?pd = "default_ts_player\<lparr>ts_movement_consistency := Some (Fin B)\<rparr>"
  have c: "component_scores_of exact_arith ?pd default_ts_results =
     Inr [(BehaviorConsistency, Fin B), (LocationVerification, Fin (2/3)),
          (HistoricalPerformance, Fin (121/300)), (SocialBehavior, Fin (7/10)),
          (DeviceReputation, Fin (7/10)), (TemporalPatterns, Fin (22/30))]"
    by (simp add: component_scores_of_def calculate_behavior_consistency_def
        calculate_location_trust_def calculate_historical_performance_def
        calculate_social_behavior_def calculate_device_reputation_def
        calculate_temporal_consistency_def default_ts_player_def default_ts_results_def
        exact_arith_def and_then_def fin_op_def fin_fold_def np_mean_def getd_def Let_def
        py_min_def py_max_def py_gt_def)
  show ?thesis
    unfolding calculate_trust_score_def c
    using assms
    by (simp add: and_then_def trust_weights_def score_of_def apply_trust_decay_fl_def
          default_ts_player_def calculate_confidence_def fin_fold_def exact_arith_def
          fin_op_def py_min_def py_max_def py_gt_def Let_def)
qed

text \<open>
  Claim C2. Whatever the numbers in the input (finite of any size, infinite or NaN) and
  whatever the arithmetic does with them, a trust score that \<open>calculate_trust_score\<close>
  returns is a finite number in [0, 1]; and the overall confidence returned by
  \<open>comprehensive_location_verification\<close> is in [0, 1].
\<close>

theorem scores_lie_in_unit_interval:
  assumes "fst (calculate_trust_score ar now h pd vr) = Inr r"
  shows "(\<exists>x. tr_trust_score r = Fin x \<and> 0 \<le> x \<and> x \<le> 1)
   \<and> 0 \<le> v_overall_confidence (comprehensive_location_verification t ld)
   \<and> v_overall_confidence (comprehensive_location_verification t ld) \<le> 1"
  using trust_score_clamped [OF assms] overall_confidence_bounds [where now = t and ld = ld]
  by simp

theorem scores_lie_in_unit_interval_witness:
  "\<exists>r. fst (calculate_trust_score exact_arith 0 Map.empty default_ts_player default_ts_results)
         = Inr r
       \<and> tr_trust_score r = Fin (239/375)
       \<and> (\<exists>x. tr_trust_score r = Fin x \<and> 0 \<le> x \<and> x \<le> 1)
       \<and> 0 \<le> v_overall_confidence (comprehensive_location_verification 0 empty_location_data)
       \<and> v_overall_confidence (comprehensive_location_verification 0 empty_location_data) \<le> 1"
proof -
  obtain r where r:
    "calculate_trust_score exact_arith 0 Map.empty default_ts_player default_ts_results
       = (Inr r, Map.empty)"
    and s: "tr_trust_score r = Fin (239/375)"
    using default_trust_score by blast
  from r have f:
    "fst (calculate_trust_score exact_arith 0 Map.empty default_ts_player default_ts_results)
       = Inr r"
    by simp
  show ?thesis
    using f s scores_lie_in_unit_interval [OF f, of 0 empty_location_data] by blast
qed

section \<open>FraudDetector: rounded coordinates\<close>

lemma hd_split_on: "hd (split_on c s piece) = piece @ takeWhile (\<lambda>x. x \<noteq> c) s"
  by (induction s arbitrary: piece) auto

lemma split_on_nonempty: "split_on c s piece \<noteq> []"
  by (induction s arbitrary: piece) auto

lemma split_on_second:
  "c \<in> set s \<Longrightarrow>
     2 \<le> length (split_on c s piece)
     \<and> split_on c s piece ! 1 = takeWhile (\<lambda>x. x \<noteq> c) (tl (dropWhile (\<lambda>x. x \<noteq> c) s))"
proof (induction s arbitrary: piece)
  case Nil
  then show ?case by simp
next
  case (Cons x xs)
  show ?case
  proof (cases "x = c")
    case True
    have "split_on c xs [] \<noteq> []" by (rule split_on_nonempty)
    then have "1 \<le> length (split_on c xs [])" by (cases "split_on c xs []") auto
    moreover have "split_on c xs [] ! 0 = takeWhile (\<lambda>x. x \<noteq> c) xs"
      using hd_split_on [of c xs "[]"] split_on_nonempty [of c xs "[]"]
      by (simp add: hd_conv_nth)
    ultimately show ?thesis using True by simp
  next
    case False
    then have "c \<in> set xs" using Cons.prems by auto
    from Cons.IH [OF this, of "piece @ [x]"] False show ?thesis by simp
  qed
qed

lemma digits_chars: "set (digits n) \<subseteq> set ''0123456789''"
proof (induction n rule: digits.induct)
  case (1 n)
  have m: "''0123456789'' ! k \<in> set ''0123456789''" if "k < 10" for k
    using that by (intro nth_mem) simp
  show ?case
  proof (cases "n < 10")
    case True
    then show ?thesis using m [of n] by (subst digits.simps) simp
  next
    case False
    have "n mod 10 < 10" by simp
    from m [OF this] have "''0123456789'' ! (n mod 10) \<in> set ''0123456789''" .
    moreover have "set (digits (n div 10)) \<subseteq> set ''0123456789''" using 1 False by simp
    ultimately show ?thesis using False by (subst digits.simps) simp
  qed
qed

lemma int_has_no_point: "CHR ''.'' \<notin> set (py_str (IntCoord i))"
proof -
  have "CHR ''.'' \<notin> set (digits n)" for n using digits_chars [of n] by auto
  then show ?thesis by simp
qed

text \<open>
  Claim C6, as the code has it. A coordinate pair is classified as rounded exactly when
  the printed form of the latitude or of the longitude contains a decimal point that is
  followed by fewer than 4 characters. The printed form of an \<open>int\<close> contains no point, so
  an integer coordinate never makes the pair rounded.
\<close>

theorem rounded_iff_point_with_few_digits:
  "is_rounded_coordinate a b =
     ((CHR ''.'' \<in> set (py_str a) \<and> decimal_places a < 4)
      \<or> (CHR ''.'' \<in> set (py_str b) \<and> decimal_places b < 4))
   \<and> CHR ''.'' \<notin> set (py_str (IntCoord i))"
proof -
  have "length (py_split CHR ''.'' s ! 1) =
        length (takeWhile (\<lambda>x. x \<noteq> CHR ''.'') (tl (dropWhile (\<lambda>x. x \<noteq> CHR ''.'') s)))"
    if "CHR ''.'' \<in> set s" for s
    using split_on_second [OF that, of "[]"] by (simp add: py_split_def)
  then show ?thesis
    using int_has_no_point [of i]
    by (auto simp: is_rounded_coordinate_def decimal_places_def Let_def)
qed

lemma no_point_no_places:
  assumes "CHR ''.'' \<notin> set (py_str c)"
  shows "decimal_places c = 0"
proof -
  have d: "dropWhile (\<lambda>x. x \<noteq> CHR ''.'') (py_str c) = []"
    using assms by (intro dropWhile_eq_Nil_conv [THEN iffD2]) auto
  show ?thesis unfolding decimal_places_def d by simp
qed

text \<open>
  Claim C6 as stated fails: the integer latitude 12 has no decimal digit at all, and the
  pair of it with the longitude 77.123456 is not classified as rounded.
\<close>

theorem integer_coordinate_not_rounded:
  "decimal_places (IntCoord 12) = 0
   \<and> \<not> is_rounded_coordinate (IntCoord 12) (FloatCoord ''77.123456'')"
proof -
  have n: "CHR ''.'' \<notin> set (py_str (IntCoord 12))" by (rule int_has_no_point)
  have "decimal_places (IntCoord 12) = 0" by (rule no_point_no_places [OF n])
  moreover have "\<not> is_rounded_coordinate (IntCoord 12) (FloatCoord ''77.123456'')"
    using n by (simp add: is_rounded_coordinate_def Let_def py_split_def)
  ultimately show ?thesis by simp
qed

section \<open>The two impossible-movement checks\<close>

lemma impossible_loop_iff:
  "impossible_loop h = (\<exists>pq\<in>set (consecutive h). fd_too_fast pq)"
proof (induction h rule: impossible_loop.induct)
  case (1 prv cur rest)
  then show ?case
    by (auto simp: consecutive_def fd_too_fast_def time_delta_def Let_def)
qed (simp_all add: consecutive_def)

lemma check_impossible_movements_iff:
  "check_impossible_movements ld =
     (\<exists>pq\<in>set (consecutive (getd (fd_location_history ld) [])). fd_too_fast pq)"
proof (cases "length (getd (fd_location_history ld) []) < 2")
  case True
  then have "consecutive (getd (fd_location_history ld) []) = []"
    by (cases "getd (fd_location_history ld) []" rule: impossible_loop.cases)
       (simp_all add: consecutive_def)
  then show ?thesis using True by (simp add: check_impossible_movements_def Let_def)
next
  case False
  then show ?thesis by (simp add: check_impossible_movements_def Let_def impossible_loop_iff)
qed

lemma lvs_distance_haversine: "lvs_calculate_distance p q = Inr (haversine p q)"
  by (simp add: lvs_calculate_distance_value haversine_def)

lemma teleport_loop_value:
  "teleport_loop h (issues, score) =
     Inr (issues @ map (\<lambda>pq. UnnaturalMovementSpeed (haversine (fst pq) (snd pq) / time_delta pq))
                    (filter lvs_too_fast (consecutive h)),
          score * 0.5 ^ length (filter lvs_too_fast (consecutive h)))"
proof (induction h "(issues, score)" arbitrary: issues score rule: teleport_loop.induct)
  case (1 prv cur rest issues natural_score)
  show ?case
    using 1
    by (simp add: lvs_distance_haversine Let_def consecutive_def lvs_too_fast_def
                  time_delta_def)
qed (simp_all add: consecutive_def)

lemma verify_movement_patterns_confidence:
  "\<exists>r. verify_movement_patterns h = Inr r
     \<and> mv_confidence r =
         (if length h < 3 then 0.5
          else 0.5 ^ length (filter lvs_too_fast (consecutive h))
               * (if check_straight_line_movement h then 0.7 else 1)
               * (if check_repetitive_patterns h then 0.8 else 1))"
  by (simp add: verify_movement_patterns_def teleport_loop_value Let_def)

lemma fd_distance_antimeridian: "fd_calculate_distance (west s) (east t) = 39960000"
  by (simp add: fd_calculate_distance_def west_def east_def)

lemma haversine_antimeridian: "haversine (west s) (east t) = 0" "haversine (east s) (east t) = 0"
  by (simp_all add: haversine_def haversine_a_def west_def east_def radians_def)

lemma crossing_flagged: "check_impossible_movements (history_at [west 0, east 1, east 2])"
  unfolding check_impossible_movements_iff
  by (simp add: history_at_def getd_def consecutive_def fd_too_fast_def time_delta_def
                fd_distance_antimeridian)
     (simp add: east_def west_def)

lemma crossing_natural:
  "verify_movement_patterns [west 0, east 1, east 2] =
     Inr \<lparr>mv_natural_movement = True, mv_confidence = 1, mv_issues = [],
          mv_data_points = Some 3\<rparr>"
  by (simp add: verify_movement_patterns_def teleport_loop_value Let_def consecutive_def
                lvs_too_fast_def haversine_antimeridian check_straight_line_movement_def
                check_repetitive_patterns_def)

text \<open>
  Claim C7, as the code has it. \<open>FraudDetector._check_impossible_movements\<close> measures
  distance by the simplified formula (the sum of the latitude and longitude differences
  times 111000) and flags a history exactly when some consecutive pair with positive
  time delta is faster than 500 km/h. \<open>verify_movement_patterns\<close> measures distance by
  the haversine formula and, on a history of at least 3 points, halves the score once for
  each consecutive pair with positive time delta that is faster than 50 m/s. The two
  checks are not equivalent: a history that crosses the antimeridian within a second is
  flagged by the first and is natural, with confidence 1, for the second.
\<close>

theorem speed_checks_differ:
  "check_impossible_movements ld =
     (\<exists>pq\<in>set (consecutive (getd (fd_location_history ld) [])). fd_too_fast pq)
   \<and> (\<exists>r. verify_movement_patterns h = Inr r
         \<and> mv_confidence r =
             (if length h < 3 then 0.5
              else 0.5 ^ length (filter lvs_too_fast (consecutive h))
                   * (if check_straight_line_movement h then 0.7 else 1)
                   * (if check_repetitive_patterns h then 0.8 else 1)))
   \<and> check_impossible_movements (history_at [west 0, east 1, east 2])
   \<and> verify_movement_patterns [west 0, east 1, east 2] =
       Inr \<lparr>mv_natural_movement = True, mv_confidence = 1, mv_issues = [],
            mv_data_points = Some 3\<rparr>"
  using check_impossible_movements_iff [of ld] verify_movement_patterns_confidence [of h]
    crossing_flagged crossing_natural
  by blast

text \<open>
  Claim C7 as stated fails: the distance of \<open>FraudDetector\<close> is not the haversine
  distance. From longitude -180 to longitude 180 on the equator it is 39960000 metres,
  and the haversine distance is 0.
\<close>

theorem fraud_distance_is_not_haversine:
  "fd_calculate_distance (west 0) (east 1) = 39960000
   \<and> lvs_calculate_distance (west 0) (east 1) = Inr 0"
  by (simp add: fd_distance_antimeridian lvs_distance_haversine haversine_antimeridian)

end
